theory Spec2Isabelle
  imports Complex_Main
begin

section \<open>Exceptions and stateful computations\<close>

text \<open>
  The nodes are Python methods that mutate objects and may raise. A computation is a
  function from the state to a result and the state it leaves behind; the result is
  either the exception raised (\<open>Inl\<close>) or the value returned (\<open>Inr\<close>). The state
  is returned in both cases, because a Python exception does not undo the assignments
  made before it.
\<close>

datatype error =
  ValueError | TypeError | IndexError | KeyError | AttributeError | UnboundLocalError
  | RuntimeError | Cv2Error | LibraryError

type_synonym ('s, 'a) prog = "'s \<Rightarrow> (error + 'a) \<times> 's"

definition retS :: "'a \<Rightarrow> ('s, 'a) prog" where
  "retS x = (\<lambda>s. (Inr x, s))"

definition raiseS :: "error \<Rightarrow> ('s, 'a) prog" where
  "raiseS e = (\<lambda>s. (Inl e, s))"

definition bindS :: "('s, 'a) prog \<Rightarrow> ('a \<Rightarrow> ('s, 'b) prog) \<Rightarrow> ('s, 'b) prog" where
  "bindS m f = (\<lambda>s. case m s of (Inl e, s') \<Rightarrow> (Inl e, s') | (Inr x, s') \<Rightarrow> f x s')"

definition liftS :: "error + 'a \<Rightarrow> ('s, 'a) prog" where
  "liftS r = (\<lambda>s. (r, s))"

definition bindE :: "error + 'a \<Rightarrow> ('a \<Rightarrow> error + 'b) \<Rightarrow> error + 'b" where
  "bindE m f = (case m of Inl e \<Rightarrow> Inl e | Inr x \<Rightarrow> f x)"

section \<open>Tensors and arrays\<close>

datatype dtype = BoolT | UInt8 | Bfloat16 | Float16 | Float32 | Float64

datatype lib = Torch | Numpy

text \<open>
  A torch tensor or a numpy array is the library it belongs to, its element type, its
  shape and its entries, read by multi-index. An entry is the real number that the
  floating-point, \<open>uint8\<close> or boolean entry stands for; infinities and NaN are not
  modelled, and neither is the rounding of the arithmetic on arrays. Only indices within
  the shape are meaningful; every operation that reads by position checks the shape first
  and raises where numpy or torch would.
\<close>

record tensor =
  lib :: lib
  dtype :: dtype
  shape :: "nat list"
  elems :: "nat list \<Rightarrow> real"

definition in_bounds :: "nat list \<Rightarrow> nat list \<Rightarrow> bool" where
  "in_bounds sh idx = list_all2 (<) idx sh"

text \<open>\<open>t.shape[i]\<close>\<close>
definition dim_at :: "nat list \<Rightarrow> nat \<Rightarrow> error + nat" where
  "dim_at sh i = (if i < length sh then Inr (sh ! i) else Inl IndexError)"

text \<open>\<open>t[i, j]\<close>\<close>
definition index2 :: "tensor \<Rightarrow> nat \<Rightarrow> nat \<Rightarrow> error + tensor" where
  "index2 t i j =
     (if 2 \<le> length (shape t) \<and> i < shape t ! 0 \<and> j < shape t ! 1
      then Inr \<lparr>lib = lib t, dtype = dtype t, shape = drop 2 (shape t),
                elems = (\<lambda>idx. elems t (i # j # idx))\<rparr>
      else Inl IndexError)"

text \<open>\<open>t > 0\<close>: zero is a value of every element type, so the comparison is exact.\<close>
definition gt_zero :: "tensor \<Rightarrow> tensor" where
  "gt_zero t =
     \<lparr>lib = lib t, dtype = BoolT, shape = shape t,
      elems = (\<lambda>idx. if elems t idx > 0 then 1 else 0)\<rparr>"

text \<open>
  \<open>t > c\<close> for a torch tensor and a Python float: torch compares in the element type of
  the tensor when that is a floating type, and in \<open>float32\<close> otherwise, after converting
  the Python float to it. \<open>c\<close> here is the float already converted. The entries of the
  tensor are compared as they are.
\<close>
definition is_floating :: "dtype \<Rightarrow> bool" where
  "is_floating d = (d = Bfloat16 \<or> d = Float16 \<or> d = Float32 \<or> d = Float64)"

definition comparison_dtype :: "dtype \<Rightarrow> dtype" where
  "comparison_dtype d = (if is_floating d then d else Float32)"

definition torch_gt :: "tensor \<Rightarrow> real \<Rightarrow> tensor" where
  "torch_gt t c =
     \<lparr>lib = lib t, dtype = BoolT, shape = shape t,
      elems = (\<lambda>idx. if elems t idx > c then 1 else 0)\<rparr>"

text \<open>\<open>t.cpu().numpy()\<close>: only a torch tensor has the method.\<close>
definition cpu_numpy :: "tensor \<Rightarrow> error + tensor" where
  "cpu_numpy t = (if lib t = Torch then Inr (t\<lparr>lib := Numpy\<rparr>) else Inl AttributeError)"

text \<open>Conversion of one entry to \<open>uint8\<close>: the fraction is dropped, the integer wraps.\<close>
definition uint8_of :: "real \<Rightarrow> real" where
  "uint8_of x = of_int ((if 0 \<le> x then \<lfloor>x\<rfloor> else \<lceil>x\<rceil>) mod 256)"

text \<open>\<open>t.byte()\<close>, \<open>a.astype("uint8")\<close>\<close>
definition to_byte :: "tensor \<Rightarrow> tensor" where
  "to_byte t = \<lparr>lib = lib t, dtype = UInt8, shape = shape t, elems = (\<lambda>idx. uint8_of (elems t idx))\<rparr>"

text \<open>\<open>t.float()\<close>\<close>
definition to_float :: "tensor \<Rightarrow> tensor" where
  "to_float t = t\<lparr>dtype := Float32\<rparr>"

text \<open>\<open>t.unsqueeze(0)\<close>\<close>
definition unsqueeze0 :: "tensor \<Rightarrow> tensor" where
  "unsqueeze0 t =
     \<lparr>lib = lib t, dtype = dtype t, shape = 1 # shape t, elems = (\<lambda>idx. elems t (tl idx))\<rparr>"

text \<open>\<open>t.squeeze(0)\<close>: a first dimension of size 1 is removed, any other is kept.\<close>
definition squeeze0 :: "tensor \<Rightarrow> tensor" where
  "squeeze0 t =
     (case shape t of
        d # sh \<Rightarrow> if d = 1 then \<lparr>lib = lib t, dtype = dtype t, shape = sh,
                                   elems = (\<lambda>idx. elems t (0 # idx))\<rparr>
                  else t
      | [] \<Rightarrow> t)"

text \<open>\<open>torch.ones(sh, dtype=torch.uint8)\<close> and \<open>np.zeros(sh, dtype="uint8")\<close>\<close>
definition torch_ones :: "nat list \<Rightarrow> tensor" where
  "torch_ones sh = \<lparr>lib = Torch, dtype = UInt8, shape = sh, elems = (\<lambda>_. 1)\<rparr>"

definition np_zeros :: "nat list \<Rightarrow> tensor" where
  "np_zeros sh = \<lparr>lib = Numpy, dtype = UInt8, shape = sh, elems = (\<lambda>_. 0)\<rparr>"

text \<open>\<open>t * c\<close> for a torch tensor and a Python float: an integer tensor becomes float32.\<close>
definition torch_mul_scalar :: "tensor \<Rightarrow> real \<Rightarrow> tensor" where
  "torch_mul_scalar t c =
     \<lparr>lib = Torch, dtype = (if is_floating (dtype t) then dtype t else Float32), shape = shape t,
      elems = (\<lambda>idx. elems t idx * c)\<rparr>"

text \<open>\<open>a * c\<close> for a numpy array and a Python float: an integer array becomes float64.\<close>
definition np_mul_scalar :: "tensor \<Rightarrow> real \<Rightarrow> tensor" where
  "np_mul_scalar a c =
     \<lparr>lib = Numpy, dtype = (if is_floating (dtype a) then dtype a else Float64), shape = shape a,
      elems = (\<lambda>idx. elems a idx * c)\<rparr>"

text \<open>\<open>a * k\<close> for a \<open>uint8\<close> numpy array and a Python integer that fits: the product wraps.\<close>
definition np_mul_uint8 :: "tensor \<Rightarrow> int \<Rightarrow> tensor" where
  "np_mul_uint8 a k =
     \<lparr>lib = Numpy, dtype = UInt8, shape = shape a,
      elems = (\<lambda>idx. of_int ((\<lfloor>elems a idx\<rfloor> * k) mod 256))\<rparr>"

text \<open>\<open>a / c\<close> and \<open>c - a\<close> for a numpy array and a Python float\<close>
definition np_div_scalar :: "tensor \<Rightarrow> real \<Rightarrow> tensor" where
  "np_div_scalar a c =
     \<lparr>lib = Numpy, dtype = (if is_floating (dtype a) then dtype a else Float64), shape = shape a,
      elems = (\<lambda>idx. elems a idx / c)\<rparr>"

definition np_rsub_scalar :: "real \<Rightarrow> tensor \<Rightarrow> tensor" where
  "np_rsub_scalar c a =
     \<lparr>lib = Numpy, dtype = (if is_floating (dtype a) then dtype a else Float64), shape = shape a,
      elems = (\<lambda>idx. c - elems a idx)\<rparr>"

text \<open>
  Broadcasting of two shapes, aligned at the last dimension: two sizes agree when they are
  equal or one of them is 1.
\<close>

fun broadcast_rev :: "nat list \<Rightarrow> nat list \<Rightarrow> nat list option" where
  "broadcast_rev [] ys = Some ys"
| "broadcast_rev xs [] = Some xs"
| "broadcast_rev (x # xs) (y # ys) =
     (if x = y \<or> y = 1 then map_option ((#) x) (broadcast_rev xs ys)
      else if x = 1 then map_option ((#) y) (broadcast_rev xs ys)
      else None)"

definition broadcast_shapes :: "nat list \<Rightarrow> nat list \<Rightarrow> nat list option" where
  "broadcast_shapes a b = map_option rev (broadcast_rev (rev a) (rev b))"

text \<open>The index into an operand of shape \<open>sh\<close> that a result index reads.\<close>
definition bidx :: "nat list \<Rightarrow> nat list \<Rightarrow> nat list" where
  "bidx sh idx = map2 (\<lambda>d i. if d = 1 then 0 else i) sh (drop (length idx - length sh) idx)"

definition promote :: "dtype \<Rightarrow> dtype \<Rightarrow> dtype" where
  "promote a b =
     (if a = b then a
      else if a = Float64 \<or> b = Float64 then Float64
      else if a = Float32 \<or> b = Float32 then Float32
      else if is_floating a \<and> is_floating b then Float32
      else if is_floating a then a
      else if is_floating b then b
      else UInt8)"

definition np_binop :: "(real \<Rightarrow> real \<Rightarrow> real) \<Rightarrow> tensor \<Rightarrow> tensor \<Rightarrow> error + tensor" where
  "np_binop f a b =
     (case broadcast_shapes (shape a) (shape b) of
        None \<Rightarrow> Inl ValueError
      | Some sh \<Rightarrow>
          Inr \<lparr>lib = Numpy, dtype = promote (dtype a) (dtype b), shape = sh,
               elems = (\<lambda>idx. f (elems a (bidx (shape a) idx)) (elems b (bidx (shape b) idx)))\<rparr>)"

text \<open>\<open>a * b\<close> and \<open>a + b\<close> for numpy arrays\<close>
definition np_mul :: "tensor \<Rightarrow> tensor \<Rightarrow> error + tensor" where
  "np_mul = np_binop (*)"

definition np_add :: "tensor \<Rightarrow> tensor \<Rightarrow> error + tensor" where
  "np_add = np_binop (+)"

text \<open>\<open>a[:, :, lo:hi]\<close> for a numpy array: three dimensions are required.\<close>
definition slice_last :: "tensor \<Rightarrow> nat \<Rightarrow> nat \<Rightarrow> error + tensor" where
  "slice_last a lo hi =
     (case shape a of
        [h, w, c] \<Rightarrow>
          Inr \<lparr>lib = lib a, dtype = dtype a, shape = [h, w, min hi c - min lo c],
               elems = (\<lambda>idx. elems a (butlast idx @ [last idx + lo]))\<rparr>
      | _ \<Rightarrow> if length (shape a) < 3 then Inl IndexError
             else Inr \<lparr>lib = lib a, dtype = dtype a,
                       shape = take 2 (shape a) @ [min hi (shape a ! 2) - min lo (shape a ! 2)]
                               @ drop 3 (shape a),
                       elems = (\<lambda>idx. elems a (take 2 idx @ [idx ! 2 + lo] @ drop 3 idx))\<rparr>)"

text \<open>All multi-indices of a shape, in row-major order.\<close>
fun all_indices :: "nat list \<Rightarrow> nat list list" where
  "all_indices [] = [[]]"
| "all_indices (n # ns) = concat (map (\<lambda>i. map ((#) i) (all_indices ns)) [0..<n])"

text \<open>
  \<open>a[m] = v\<close> for a numpy array \<open>a\<close>, a boolean array \<open>m\<close> and a list \<open>v\<close> of numbers. The
  shape of \<open>m\<close> has to be a prefix of the shape of \<open>a\<close>. Where \<open>m\<close> has fewer dimensions,
  every selected block receives \<open>v\<close> along the last dimension of \<open>a\<close>; where it has as
  many, the selected entries receive the entries of \<open>v\<close> in order, and their number has to
  be the length of \<open>v\<close>.
\<close>
definition mask_assign :: "tensor \<Rightarrow> tensor \<Rightarrow> real list \<Rightarrow> error + tensor" where
  "mask_assign a m v =
     (let k = length (shape m) in
      if length (shape a) < k \<or> shape m \<noteq> take k (shape a) then Inl IndexError
      else if k < length (shape a) then
        (if last (shape a) = length v \<or> length v = 1
         then Inr (a\<lparr>elems := (\<lambda>idx. if 0 < elems m (take k idx)
                                       then (if length v = 1 then v ! 0 else v ! last idx)
                                       else elems a idx)\<rparr>)
         else Inl ValueError)
      else
        (let sel = filter (\<lambda>idx. 0 < elems m idx) (all_indices (shape m)) in
         if length sel = length v \<or> length v = 1
         then Inr (a\<lparr>elems := (\<lambda>idx. if idx \<in> set sel
                                       then (if length v = 1 then v ! 0
                                             else v ! (length (takeWhile (\<lambda>j. j \<noteq> idx) sel)))
                                       else elems a idx)\<rparr>)
         else Inl ValueError))"

text \<open>
  \<open>torch.stack(ts, dim=0)\<close>: the list must not be empty, its members must be torch
  tensors and must have one shape.
\<close>
definition torch_stack :: "tensor list \<Rightarrow> error + tensor" where
  "torch_stack ts =
     (case ts of
        [] \<Rightarrow> Inl RuntimeError
      | t # rest \<Rightarrow>
          if \<not> list_all (\<lambda>u. lib u = Torch) ts then Inl TypeError
          else if list_all (\<lambda>u. shape u = shape t) rest
          then Inr \<lparr>lib = Torch, dtype = foldl promote (dtype t) (map dtype rest),
                    shape = length ts # shape t,
                    elems = (\<lambda>idx. case idx of [] \<Rightarrow> 0 | i # r \<Rightarrow> elems (ts ! i) r)\<rparr>
          else Inl RuntimeError)"

text \<open>\<open>t[i]\<close>, for reading a stacked tensor\<close>
definition select0 :: "tensor \<Rightarrow> nat \<Rightarrow> tensor" where
  "select0 t i =
     \<lparr>lib = lib t, dtype = dtype t, shape = tl (shape t), elems = (\<lambda>idx. elems t (i # idx))\<rparr>"


section \<open>The model loader node\<close>

text \<open>
  \<open>DownloadAndLoadSAM2RealtimeModel.loadmodel\<close> touches the GPU runtime, the file
  system, the network and the configuration library. None of these is code of the
  repository, so each is an operation of a host, over a host state \<open>'w\<close> that the
  loader threads through in the order of the source.
\<close>

type_synonym ref = nat

record 'w host =
  models_dir :: string
  script_directory :: string
  cuda_major :: "('w, nat) prog"
  allow_tf32 :: "'w \<Rightarrow> 'w"
  print :: "string \<Rightarrow> 'w \<Rightarrow> 'w"
  path_exists :: "string \<Rightarrow> 'w \<Rightarrow> bool"
  download :: "string \<Rightarrow> string \<Rightarrow> ('w, unit) prog"
  compose_instantiate :: "string \<Rightarrow> string \<Rightarrow> string list \<Rightarrow> ('w, ref) prog"
  load_state_dict :: "ref \<Rightarrow> string \<Rightarrow> ('w, string list \<times> string list) prog"
  log_error :: "string list \<Rightarrow> 'w \<Rightarrow> 'w"
  log_info :: "string \<Rightarrow> 'w \<Rightarrow> 'w"
  cuda_is_available :: "'w \<Rightarrow> bool"
  to_eval :: "ref \<Rightarrow> string \<Rightarrow> ('w, unit) prog"


record sam2_model =
  sm_model :: ref
  sm_dtype :: dtype
  sm_device :: string
  sm_segmentor :: string
  sm_version :: string

definition path_join :: "string \<Rightarrow> string \<Rightarrow> string" where
  "path_join a b =
     (if b \<noteq> [] \<and> hd b = CHR ''/'' then b
      else if a = [] \<or> last a = CHR ''/'' then a @ b
      else a @ ''/'' @ b)"

definition dtype_of :: "string \<Rightarrow> error + dtype" where
  "dtype_of precision =
     (if precision = ''bf16'' then Inr Bfloat16
      else if precision = ''fp16'' then Inr Float16
      else if precision = ''fp32'' then Inr Float32
      else Inl KeyError)"

definition device_of :: "string \<Rightarrow> error + string" where
  "device_of d =
     (if d = ''cuda'' \<or> d = ''cpu'' \<or> d = ''mps'' then Inr d
      else Inl KeyError)"

definition hydra_overrides :: "string list" where
  "hydra_overrides =
     [''++model._target_=sam2_realtime.sam2_tensor_predictor.SAM2TensorPredictor'',
      ''++model.sam_mask_decoder_extra_args.dynamic_multimask_via_stability=true'',
      ''++model.sam_mask_decoder_extra_args.dynamic_multimask_stability_delta=0.05'',
      ''++model.sam_mask_decoder_extra_args.dynamic_multimask_stability_thresh=0.98'',
      ''++model.binarize_mask_from_pts_for_mem_enc=true'',
      ''++model.fill_hole_area=8'']"

definition url :: string where
  "url = ''https://dl.fbaipublicfiles.com/segment_anything_2/072824/sam2_hiera_tiny.pt''"

definition load_checkpoint :: "'w host \<Rightarrow> ref \<Rightarrow> string \<Rightarrow> ('w, unit) prog" where
  "load_checkpoint H m ckpt_path =
     bindS (load_state_dict H m ckpt_path) (\<lambda>(missing_keys, unexpected_keys).
       if missing_keys \<noteq> [] then
         bindS (\<lambda>w. (Inr (), log_error H missing_keys w)) (\<lambda>_. raiseS RuntimeError)
       else if unexpected_keys \<noteq> [] then
         bindS (\<lambda>w. (Inr (), log_error H unexpected_keys w)) (\<lambda>_. raiseS RuntimeError)
       else (\<lambda>w. (Inr (), log_info H ''Loaded checkpoint sucessfully'' w)))"

definition loadmodel ::
  "'w host \<Rightarrow> string \<Rightarrow> string \<Rightarrow> string \<Rightarrow> string \<Rightarrow> ('w, sam2_model) prog" where
  "loadmodel H model_name segmentor_name device_name precision =
     (if precision \<noteq> ''fp32'' \<and> device_name = ''cpu'' then raiseS ValueError
      else
        bindS (if device_name = ''cuda''
               then bindS (cuda_major H) (\<lambda>major.
                      if major \<ge> 8 then (\<lambda>w. (Inr (), allow_tf32 H w)) else retS ())
               else retS ()) (\<lambda>_.
        bindS (liftS (dtype_of precision)) (\<lambda>dt.
        bindS (liftS (device_of device_name)) (\<lambda>_.
        let download_path = path_join (models_dir H) ''sam2'';
            model_path = path_join download_path model_name in
        bindS (\<lambda>w. (Inr (), print H (''model_path:  '' @ model_path) w)) (\<lambda>_.
        bindS (\<lambda>w. if \<not> path_exists H model_path w
                    then bindS (\<lambda>w. (Inr (), print H (''Downloading SAM2 model to: '' @ model_path) w)) (\<lambda>_.
                         bindS (download H url model_path) (\<lambda>_.
                         (\<lambda>w. (Inr (), print H (''Model saved to '' @ model_path) w)))) w
                    else (Inr (), w)) (\<lambda>_.
        let config_dir = path_join (script_directory H) ''sam2_configs'' in
        bindS (compose_instantiate H config_dir ''sam2_hiera_t.yaml'' hydra_overrides) (\<lambda>m.
        bindS (load_checkpoint H m model_path) (\<lambda>_.
        bindS (\<lambda>w. (Inr (if cuda_is_available H w then ''cuda'' else ''cpu''), w)) (\<lambda>dev.
        bindS (to_eval H m dev) (\<lambda>_.
        retS \<lparr>sm_model = m, sm_dtype = dt, sm_device = dev,
              sm_segmentor = segmentor_name, sm_version = ''2.0''\<rparr>))))))))))"

text \<open>
  A small host on which the loader can be run: the state is the list of files present,
  a download adds the file, and every other operation succeeds without effect.
\<close>

definition example_host :: "string list host" where
  "example_host =
     \<lparr>models_dir = ''/models'', script_directory = ''/nodes'',
      cuda_major = retS 8, allow_tf32 = (\<lambda>w. w), print = (\<lambda>_ w. w),
      path_exists = (\<lambda>p w. p \<in> set w),
      download = (\<lambda>_ p w. (Inr (), p # w)),
      compose_instantiate = (\<lambda>_ _ _. retS 0),
      load_state_dict = (\<lambda>_ _. retS ([], [])),
      log_error = (\<lambda>_ w. w), log_info = (\<lambda>_ w. w),
      cuda_is_available = (\<lambda>_. False),
      to_eval = (\<lambda>_ _. retS ())\<rparr>"

section \<open>The segmentation node\<close>

text \<open>
  \<open>Sam2RealtimeSegmentation\<close> keeps two fields between calls, \<open>predictor\<close> and
  \<open>if_init\<close>. The predictor is a reference to a model object that the node shares with
  its caller, so model objects live in a heap, addressed by reference. The list \<open>calls\<close>
  records every method call made on a model object, in order; it is the only part of the
  state that the source does not have. \<open>processed_frames\<close> and \<open>mask_list\<close> are the two
  lists of \<open>segment_images\<close> that its inner function \<open>process_frame\<close> appends to.
\<close>

datatype call =
  ToDevice ref
  | LoadFirstFrame ref tensor
  | AddNewPrompt ref int int "int list list" "int list"
  | Track ref tensor

record 'm state =
  predictor :: "ref option"
  if_init :: bool
  heap :: "ref \<Rightarrow> 'm"
  calls :: "call list"
  processed_frames :: "tensor list"
  mask_list :: "tensor list"

text \<open>\<open>__init__\<close>\<close>
definition init :: "(ref \<Rightarrow> 'm) \<Rightarrow> 'm state" where
  "init h = \<lparr>predictor = None, if_init = False, heap = h, calls = [],
             processed_frames = [], mask_list = []\<rparr>"

text \<open>
  What the node uses and the repository does not define: the methods of the model
  (over the model's own state \<open>'m\<close>), \<open>ast.literal_eval\<close>, iteration and \<open>int\<close> on the
  values it yields (of type \<open>'v\<close>), the image routines of torch and OpenCV, each of which
  may raise, and \<open>round_to\<close>, the value of a Python float once converted to an element
  type.
\<close>

record ('v, 'm) env =
  model_to :: "('m, unit) prog"
  load_first_frame :: "tensor \<Rightarrow> ('m, unit) prog"
  add_new_prompt :: "int \<Rightarrow> int \<Rightarrow> int list list \<Rightarrow> int list \<Rightarrow> ('m, int \<times> int list \<times> tensor) prog"
  track :: "tensor \<Rightarrow> ('m, int list \<times> tensor) prog"
  literal_eval :: "string option \<Rightarrow> error + 'v"
  py_iter :: "'v \<Rightarrow> error + 'v list"
  py_int :: "'v \<Rightarrow> error + int"
  interpolate_nearest :: "tensor \<Rightarrow> nat \<times> nat \<Rightarrow> error + tensor"
  cv2_resize :: "tensor \<Rightarrow> nat \<times> nat \<Rightarrow> error + tensor"
  cv2_circle :: "tensor \<Rightarrow> string list \<Rightarrow> nat \<Rightarrow> nat \<times> nat \<times> nat \<Rightarrow> int \<Rightarrow> error + tensor"
  torch_add :: "tensor \<Rightarrow> tensor \<Rightarrow> error + tensor"
  round_to :: "dtype \<Rightarrow> real \<Rightarrow> real"

definition modify :: "('s \<Rightarrow> 's) \<Rightarrow> ('s, unit) prog" where
  "modify f = (\<lambda>s. (Inr (), f s))"

text \<open>A method call on the model object at \<open>r\<close>: the call is recorded, the object updated.\<close>
definition call_model :: "call \<Rightarrow> ref \<Rightarrow> ('m, 'a) prog \<Rightarrow> ('m state, 'a) prog" where
  "call_model c r f =
     (\<lambda>s. case f (heap s r) of
             (res, m') \<Rightarrow> (res, s\<lparr>heap := (heap s)(r := m'), calls := calls s @ [c]\<rparr>))"

fun mapE :: "('a \<Rightarrow> error + 'b) \<Rightarrow> 'a list \<Rightarrow> error + 'b list" where
  "mapE f [] = Inr []"
| "mapE f (x # xs) = bindE (f x) (\<lambda>y. bindE (mapE f xs) (\<lambda>ys. Inr (y # ys)))"

text \<open>\<open>list(map(int, v))\<close> and \<open>tuple(map(int, v))\<close>\<close>
definition int_list :: "('v, 'm) env \<Rightarrow> 'v \<Rightarrow> error + int list" where
  "int_list E v = bindE (py_iter E v) (mapE (py_int E))"

text \<open>\<open>xs[i]\<close> for a Python list and an index that is not negative\<close>
definition list_get :: "'a list \<Rightarrow> nat \<Rightarrow> error + 'a" where
  "list_get xs i = (if i < length xs then Inr (xs ! i) else Inl IndexError)"

subsection \<open>\<open>_process_mask\<close>\<close>

definition colors :: "real list list" where
  "colors = [[255, 0, 255], [0, 255, 255], [255, 255, 0], [0, 255, 0], [255, 0, 0]]"

text \<open>The mask of object \<open>i\<close>, as 0 or 255, resized if it has not the size of the frame.\<close>
definition object_mask :: "('v, 'm) env \<Rightarrow> tensor \<Rightarrow> nat list \<Rightarrow> nat \<Rightarrow> nat \<Rightarrow> nat \<Rightarrow> error + tensor" where
  "object_mask E msk frame_shape h w i =
     bindE (index2 msk i 0) (\<lambda>m.
     bindE (cpu_numpy (gt_zero m)) (\<lambda>b.
     let current_mask = np_mul_uint8 (to_byte b) 255 in
     if take 2 (shape current_mask) \<noteq> take 2 frame_shape
     then cv2_resize E current_mask (w, h)
     else Inr current_mask))"

text \<open>The body of the loop over the objects.\<close>
definition blend_object ::
  "('v, 'm) env \<Rightarrow> tensor \<Rightarrow> nat list \<Rightarrow> nat \<Rightarrow> nat \<Rightarrow> nat \<Rightarrow> tensor \<Rightarrow> error + tensor" where
  "blend_object E msk frame_shape h w i combined_colored_mask =
     bindE (object_mask E msk frame_shape h w i) (\<lambda>current_mask.
     let colored_mask = np_zeros [h, w, 4];
         color = colors ! (i mod length colors) in
     bindE (mask_assign colored_mask (gt_zero current_mask) (color @ [128])) (\<lambda>colored_mask.
     bindE (slice_last colored_mask 3 4) (\<lambda>a.
     let alpha = np_div_scalar a 255 in
     bindE (np_mul (np_rsub_scalar 1 alpha) combined_colored_mask) (\<lambda>x.
     bindE (np_mul alpha colored_mask) (\<lambda>y.
     np_add x y)))))"

fun blend_objects ::
  "('v, 'm) env \<Rightarrow> tensor \<Rightarrow> nat list \<Rightarrow> nat \<Rightarrow> nat \<Rightarrow> nat list \<Rightarrow> tensor \<Rightarrow> error + tensor" where
  "blend_objects E msk frame_shape h w [] combined = Inr combined"
| "blend_objects E msk frame_shape h w (i # rest) combined =
     bindE (blend_object E msk frame_shape h w i combined)
           (blend_objects E msk frame_shape h w rest)"

definition process_mask :: "('v, 'm) env \<Rightarrow> tensor \<Rightarrow> nat list \<Rightarrow> error + tensor" where
  "process_mask E msk frame_shape =
     bindE (dim_at (shape msk) 0) (\<lambda>n.
     if n = 0 then
       bindE (dim_at frame_shape 0) (\<lambda>h.
       bindE (dim_at frame_shape 1) (\<lambda>w.
       Inr (np_zeros [h, w])))
     else
       bindE (dim_at frame_shape 0) (\<lambda>h.
       bindE (dim_at frame_shape 1) (\<lambda>w.
       bindE (blend_objects E msk frame_shape h w [0..<n] (np_zeros [h, w, 4])) (\<lambda>combined.
       bindE (slice_last combined 0 3) (\<lambda>bgr.
       Inr (to_byte bgr))))))"

subsection \<open>\<open>segment_images\<close> and its inner function \<open>process_frame\<close>\<close>

text \<open>The loop that seeds one prompt per coordinate; \<open>out\<close> is \<open>out_mask_logits\<close>.\<close>
fun seed_prompts ::
  "('v, 'm) env \<Rightarrow> ref \<Rightarrow> int list \<Rightarrow> (nat \<times> 'v) list \<Rightarrow> tensor option
     \<Rightarrow> ('m state, tensor option) prog" where
  "seed_prompts E r point_labels_list [] out = retS out"
| "seed_prompts E r point_labels_list ((idx, point) # rest) out =
     bindS (liftS (int_list E point)) (\<lambda>point_tuple.
     bindS (liftS (list_get point_labels_list idx)) (\<lambda>label.
     bindS (call_model (AddNewPrompt r 0 (int idx + 1) [point_tuple] [label]) r
              (add_new_prompt E 0 (int idx + 1) [point_tuple] [label]))
           (\<lambda>(_, _, out_mask_logits).
     seed_prompts E r point_labels_list rest (Some out_mask_logits))))"

text \<open>
  The branch on \<open>if_init\<close>. The result is \<open>out_mask_logits\<close>, which stays unassigned
  (\<open>None\<close>) when the first frame is seeded with no coordinate at all.
\<close>
definition init_or_track ::
  "('v, 'm) env \<Rightarrow> string option \<Rightarrow> string option \<Rightarrow> tensor
     \<Rightarrow> ('m state, tensor option) prog" where
  "init_or_track E coordinates_positive point_labels frame =
     (\<lambda>s. case predictor s of
             None \<Rightarrow> (Inl AttributeError, s)
           | Some r \<Rightarrow>
               (if \<not> if_init s then
                  bindS (call_model (LoadFirstFrame r frame) r (load_first_frame E frame)) (\<lambda>_.
                  bindS (modify (\<lambda>s. s\<lparr>if_init := True\<rparr>)) (\<lambda>_.
                  bindS (liftS (literal_eval E coordinates_positive)) (\<lambda>coordinates_positive_list.
                  bindS (liftS (literal_eval E point_labels)) (\<lambda>point_labels_list.
                  bindS (liftS (int_list E point_labels_list)) (\<lambda>point_labels_list.
                  bindS (liftS (py_iter E coordinates_positive_list)) (\<lambda>points.
                  seed_prompts E r point_labels_list (enumerate 0 points) None))))))
                else
                  bindS (call_model (Track r frame) r (track E frame))
                        (\<lambda>(out_obj_ids, out_mask_logits). retS (Some out_mask_logits))) s)"

text \<open>The binary mask of the frame.\<close>
definition frame_mask ::
  "('v, 'm) env \<Rightarrow> real \<Rightarrow> tensor \<Rightarrow> tensor option \<Rightarrow> error + tensor" where
  "frame_mask E threshold frame out_mask_logits =
     (case out_mask_logits of
        None \<Rightarrow> Inl UnboundLocalError
      | Some logits \<Rightarrow>
          bindE (dim_at (shape logits) 0) (\<lambda>n.
          if n > 0 then
            bindE (index2 logits 0 0) (\<lambda>l.
            let msk = to_byte (torch_gt l (round_to E (comparison_dtype (dtype l)) threshold)) in
            bindE (dim_at (shape frame) 0) (\<lambda>h.
            bindE (dim_at (shape frame) 1) (\<lambda>w.
            bindE (interpolate_nearest E (to_float (unsqueeze0 (unsqueeze0 msk))) (h, w)) (\<lambda>r.
            Inr (to_byte (squeeze0 (squeeze0 r)))))))
          else
            bindE (dim_at (shape frame) 0) (\<lambda>h.
            bindE (dim_at (shape frame) 1) (\<lambda>w.
            Inr (torch_ones [h, w])))))"

text \<open>
  The loop that draws the points. It runs over \<open>coordinates_positive\<close> itself, the string
  the node was given: each \<open>point\<close> is one character, and \<open>tuple(point)\<close> the tuple of that
  one character.
\<close>
fun draw_chars :: "('v, 'm) env \<Rightarrow> string \<Rightarrow> tensor \<Rightarrow> error + tensor" where
  "draw_chars E [] img = Inr img"
| "draw_chars E (point # rest) img =
     bindE (cv2_circle E img [[point]] 5 (0, 0, 255) (- 1)) (draw_chars E rest)"

definition draw_points :: "('v, 'm) env \<Rightarrow> string option \<Rightarrow> tensor \<Rightarrow> error + tensor" where
  "draw_points E coordinates_positive img =
     (case coordinates_positive of
        None \<Rightarrow> Inl TypeError
      | Some str \<Rightarrow> draw_chars E str img)"

text \<open>
  One frame. \<open>frame0\<close> is the frame as it is handed in, \<open>frame\<close> the frame after
  \<open>frame.to(device).float()\<close>; moving it to the device leaves its entries as they are. The
  names of the bound variables are the names of the locals of the source, except that
  the local \<open>mask\<close> is called \<open>msk\<close>. The frame index is a parameter that the body does
  not read.
\<close>

definition process_frame ::
  "('v, 'm) env \<Rightarrow> string option \<Rightarrow> string option \<Rightarrow> real \<Rightarrow> bool \<Rightarrow> tensor \<Rightarrow> nat
     \<Rightarrow> ('m state, unit) prog" where
  "process_frame E coordinates_positive point_labels threshold show_point frame0 frame_idx =
     (let frame = to_float frame0 in
      bindS (init_or_track E coordinates_positive point_labels frame) (\<lambda>out_mask_logits.
      bindS (liftS (frame_mask E threshold frame out_mask_logits)) (\<lambda>msk.
      bindS (liftS (process_mask E msk (shape frame))) (\<lambda>automask_colored.
      bindS (liftS (if show_point then draw_points E coordinates_positive automask_colored
                    else Inr automask_colored)) (\<lambda>automask_colored.
      bindS (liftS (torch_add E (torch_mul_scalar frame (7 / 10))
                                (np_mul_scalar automask_colored (3 / 10)))) (\<lambda>automasked_frame.
      bindS (modify (\<lambda>s. s\<lparr>processed_frames := processed_frames s @ [automasked_frame]\<rparr>)) (\<lambda>_.
      bindS (liftS (torch_add E (torch_mul_scalar frame (1 / 10))
                                (torch_mul_scalar msk (9 / 10)))) (\<lambda>constructed_mask.
      modify (\<lambda>s. s\<lparr>mask_list := mask_list s @ [constructed_mask]\<rparr>)))))))))"

fun frames_loop ::
  "('v, 'm) env \<Rightarrow> string option \<Rightarrow> string option \<Rightarrow> real \<Rightarrow> bool \<Rightarrow> (nat \<times> tensor) list
     \<Rightarrow> ('m state, unit) prog" where
  "frames_loop E coordinates_positive point_labels threshold show_point [] = retS ()"
| "frames_loop E coordinates_positive point_labels threshold show_point ((frame_idx, img) # rest) =
     bindS (process_frame E coordinates_positive point_labels threshold show_point img frame_idx)
           (\<lambda>_. frames_loop E coordinates_positive point_labels threshold show_point rest)"

text \<open>\<open>model\<close> is \<open>sam2_model["model"]\<close>, \<open>images\<close> the frames that iterating the batch yields.\<close>
definition segment_images ::
  "('v, 'm) env \<Rightarrow> tensor list \<Rightarrow> ref \<Rightarrow> string option \<Rightarrow> string option \<Rightarrow> real \<Rightarrow> bool
     \<Rightarrow> ('m state, tensor \<times> tensor) prog" where
  "segment_images E images model coordinates_positive point_labels threshold show_point =
     bindS (call_model (ToDevice model) model (model_to E)) (\<lambda>_.
     bindS (modify (\<lambda>s. s\<lparr>processed_frames := [], mask_list := []\<rparr>)) (\<lambda>_.
     bindS (modify (\<lambda>s. if predictor s = None then s\<lparr>predictor := Some model\<rparr> else s)) (\<lambda>_.
     bindS (frames_loop E coordinates_positive point_labels threshold show_point
              (enumerate 0 images)) (\<lambda>_.
     bindS (\<lambda>s. (torch_stack (mask_list s), s)) (\<lambda>stacked_masks.
     bindS (\<lambda>s. (torch_stack (processed_frames s), s)) (\<lambda>stacked_frames.
     retS (stacked_frames, stacked_masks)))))))"

subsection \<open>An environment to run the node on\<close>

text \<open>
  Python values as far as the examples need them, and a parser that knows five strings.
  The model answers every call with the same logits: one object, two rows and two columns,
  positive on the diagonal.
\<close>

datatype pyval = PInt int | PList "pyval list"

definition example_literal_eval :: "string option \<Rightarrow> error + pyval" where
  "example_literal_eval str =
     (if str = Some ''[[1, 2], [3, 4]]''
      then Inr (PList [PList [PInt 1, PInt 2], PList [PInt 3, PInt 4]])
      else if str = Some ''[[10, 20]]'' then Inr (PList [PList [PInt 10, PInt 20]])
      else if str = Some ''[1, 0]'' then Inr (PList [PInt 1, PInt 0])
      else if str = Some ''[1]'' then Inr (PList [PInt 1])
      else if str = Some ''[]'' then Inr (PList [])
      else Inl ValueError)"

definition example_iter :: "pyval \<Rightarrow> error + pyval list" where
  "example_iter v = (case v of PList xs \<Rightarrow> Inr xs | PInt _ \<Rightarrow> Inl TypeError)"

definition example_int :: "pyval \<Rightarrow> error + int" where
  "example_int v = (case v of PInt n \<Rightarrow> Inr n | PList _ \<Rightarrow> Inl TypeError)"

definition example_logits :: tensor where
  "example_logits =
     \<lparr>lib = Torch, dtype = Float32, shape = [1, 1, 2, 2],
      elems = (\<lambda>idx. if idx = [0, 0, 0, 0] \<or> idx = [0, 0, 1, 1] then 1 else - 1)\<rparr>"

text \<open>
  Nearest-neighbour interpolation of a batch of images to a size that doubles, or keeps,
  their height and width: the source position is the target position times the ratio of
  the sizes, rounded down, and for these ratios (1/2 and 1) the product is exact in
  floating point. Other sizes are not among the examples and get no answer here.
\<close>
definition example_interpolate :: "tensor \<Rightarrow> nat \<times> nat \<Rightarrow> error + tensor" where
  "example_interpolate t sz =
     (case shape t of
        [b, c, hi, wi] \<Rightarrow>
          if hi = 0 \<or> wi = 0 \<or> fst sz = 0 \<or> snd sz = 0 then Inl RuntimeError
          else if (fst sz = hi \<or> fst sz = 2 * hi) \<and> (snd sz = wi \<or> snd sz = 2 * wi)
          then Inr \<lparr>lib = lib t, dtype = dtype t, shape = [b, c, fst sz, snd sz],
                    elems = (\<lambda>idx. elems t [idx ! 0, idx ! 1,
                                             min ((idx ! 2 * hi) div fst sz) (hi - 1),
                                             min ((idx ! 3 * wi) div snd sz) (wi - 1)])\<rparr>
          else Inl LibraryError
      | _ \<Rightarrow> Inl ValueError)"

text \<open>
  \<open>cv2.resize\<close> as far as the examples meet it: a source that is not an image of two
  dimensions with at least one pixel, and a target without pixels, are refused; a source
  that has the target size already is copied. Other sizes are not among the examples and
  get no answer here.
\<close>
definition example_resize :: "tensor \<Rightarrow> nat \<times> nat \<Rightarrow> error + tensor" where
  "example_resize t dsize =
     (case shape t of
        [hi, wi] \<Rightarrow>
          if hi = 0 \<or> wi = 0 \<or> fst dsize = 0 \<or> snd dsize = 0 then Inl Cv2Error
          else if hi = snd dsize \<and> wi = fst dsize then Inr t
          else Inl LibraryError
      | _ \<Rightarrow> Inl Cv2Error)"

text \<open>
  \<open>cv2.circle\<close>: the centre that the node hands over is a tuple of strings, which the
  routine refuses, whatever their number.
\<close>
definition example_circle ::
  "tensor \<Rightarrow> string list \<Rightarrow> nat \<Rightarrow> nat \<times> nat \<times> nat \<Rightarrow> int \<Rightarrow> error + tensor" where
  "example_circle img center radius color thickness = Inl Cv2Error"

text \<open>
  \<open>torch.add\<close>: an operand that is a numpy array is refused; two torch tensors of one
  shape are added entry by entry. Other shapes are not among the examples and get no
  answer here.
\<close>
definition example_add :: "tensor \<Rightarrow> tensor \<Rightarrow> error + tensor" where
  "example_add a b =
     (if lib a \<noteq> Torch \<or> lib b \<noteq> Torch then Inl TypeError
      else if shape a = shape b
      then Inr \<lparr>lib = Torch, dtype = promote (dtype a) (dtype b), shape = shape a,
                elems = (\<lambda>idx. elems a idx + elems b idx)\<rparr>
      else Inl LibraryError)"

text \<open>
  The conversion of a Python float to a floating element type: the nearest value with
  the significand of the type, a tie going to the even one. \<open>significand_bits\<close> counts the
  leading bit; below \<open>2 ^ min_exponent\<close> the values of the type are evenly spaced. A float
  beyond the largest finite value of the type becomes infinite, which no real number stands
  for: such a threshold is outside of what is modelled. \<open>bool\<close> and \<open>uint8\<close> tensors are
  compared in \<open>float32\<close>.
\<close>
definition round_half_even :: "real \<Rightarrow> int" where
  "round_half_even x =
     (let f = \<lfloor>x\<rfloor> in
      if x - of_int f < 1 / 2 then f
      else if x - of_int f > 1 / 2 then f + 1
      else if even f then f else f + 1)"

fun significand_bits :: "dtype \<Rightarrow> nat" where
  "significand_bits Bfloat16 = 8"
| "significand_bits Float16 = 11"
| "significand_bits Float32 = 24"
| "significand_bits Float64 = 53"
| "significand_bits BoolT = 24"
| "significand_bits UInt8 = 24"

fun min_exponent :: "dtype \<Rightarrow> int" where
  "min_exponent Bfloat16 = - 126"
| "min_exponent Float16 = - 14"
| "min_exponent Float32 = - 126"
| "min_exponent Float64 = - 1022"
| "min_exponent BoolT = - 126"
| "min_exponent UInt8 = - 126"

definition example_round :: "dtype \<Rightarrow> real \<Rightarrow> real" where
  "example_round d x =
     (if x = 0 then 0
      else let e = max \<lfloor>log 2 \<bar>x\<bar>\<rfloor> (min_exponent d);
               u = 2 powr (of_int e - of_nat (significand_bits d) + 1)
           in of_int (round_half_even (x / u)) * u)"

definition example_env :: "(pyval, nat) env" where
  "example_env =
     \<lparr>model_to = retS (),
      load_first_frame = (\<lambda>frame. retS ()),
      add_new_prompt = (\<lambda>frame_idx obj_id points labels. retS (frame_idx, [obj_id], example_logits)),
      track = (\<lambda>frame n. (Inr ([1], example_logits), Suc n)),
      literal_eval = example_literal_eval,
      py_iter = example_iter,
      py_int = example_int,
      interpolate_nearest = example_interpolate,
      cv2_resize = example_resize,
      cv2_circle = example_circle,
      torch_add = example_add,
      round_to = example_round\<rparr>"

text \<open>A frame of four rows, four columns and three channels, every entry \<open>v\<close>.\<close>
definition example_frame :: "real \<Rightarrow> tensor" where
  "example_frame v = \<lparr>lib = Torch, dtype = Float32, shape = [4, 4, 3], elems = (\<lambda>_. v)\<rparr>"

subsection \<open>Notions used to state the properties\<close>

text \<open>A call of \<open>add_new_prompt\<close> on the model at \<open>r\<close>, for frame 0, with one point and one label.\<close>

fun is_prompt :: "ref \<Rightarrow> call \<Rightarrow> bool" where
  "is_prompt r (AddNewPrompt r' frame_idx obj_id points labels) =
     (r' = r \<and> frame_idx = 0 \<and> length points = 1 \<and> length labels = 1)"
| "is_prompt r _ = False"

text \<open>What a step leaves alone when it only talks to the model.\<close>

definition same_node :: "'m state \<Rightarrow> 'm state \<Rightarrow> bool" where
  "same_node s s' = (predictor s' = predictor s \<and> if_init s' = if_init s
       \<and> processed_frames s' = processed_frames s \<and> mask_list s' = mask_list s)"

text \<open>One \<open>track\<close> call per frame, on the model at \<open>r\<close>.\<close>

definition tracks :: "ref \<Rightarrow> tensor list \<Rightarrow> call list" where
  "tracks r frames = map (\<lambda>frame. Track r (to_float frame)) frames"

text \<open>The value of \<open>self.predictor\<close> once \<open>segment_images\<close> has looked at it.\<close>

definition stored_predictor :: "'m state \<Rightarrow> ref \<Rightarrow> ref" where
  "stored_predictor s model = (case predictor s of None \<Rightarrow> model | Some r \<Rightarrow> r)"


text \<open>
  The two images that a frame contributes, as the description of the node words them:
  the colorized mask is what \<open>_process_mask\<close> returns, with the points drawn when
  \<open>show_point\<close> is set; the processed image is 0.7 times the frame plus 0.3 times the
  colorized mask, the mask image 0.1 times the frame plus 0.9 times the binary mask.
\<close>

definition colorized_mask ::
  "('v, 'm) env \<Rightarrow> string option \<Rightarrow> bool \<Rightarrow> tensor \<Rightarrow> tensor \<Rightarrow> error + tensor" where
  "colorized_mask E coordinates_positive show_point msk frame =
     bindE (process_mask E msk (shape frame)) (\<lambda>colored.
       if show_point then draw_points E coordinates_positive colored else Inr colored)"

definition blended_images ::
  "('v, 'm) env \<Rightarrow> string option \<Rightarrow> real \<Rightarrow> bool \<Rightarrow> tensor \<Rightarrow> tensor option
     \<Rightarrow> error + tensor \<times> tensor" where
  "blended_images E coordinates_positive threshold show_point frame out_mask_logits =
     bindE (frame_mask E threshold frame out_mask_logits) (\<lambda>msk.
     bindE (colorized_mask E coordinates_positive show_point msk frame) (\<lambda>colored.
     bindE (torch_add E (torch_mul_scalar frame (7 / 10)) (np_mul_scalar colored (3 / 10))) (\<lambda>p.
     bindE (torch_add E (torch_mul_scalar frame (1 / 10)) (torch_mul_scalar msk (9 / 10))) (\<lambda>q.
     Inr (p, q)))))"


text \<open>
  The compositing of one pixel, as the description of \<open>_process_mask\<close> words it: object
  \<open>i\<close> is colored with \<open>colors[i mod 5]\<close> at alpha 128 where its mask is on and is
  transparent elsewhere; objects are accumulated in index order by
  \<open>combined = (1 - alpha) * combined + alpha * colored\<close>, with \<open>alpha\<close> the alpha channel
  of the colored pixel divided by 255.
\<close>

definition colored_pixel :: "nat \<Rightarrow> bool \<Rightarrow> real list" where
  "colored_pixel i on = (if on then colors ! (i mod 5) @ [128] else [0, 0, 0, 0])"

definition blend :: "real list \<Rightarrow> real list \<Rightarrow> real list" where
  "blend combined colored =
     (let alpha = colored ! 3 / 255
      in map2 (\<lambda>c k. (1 - alpha) * c + alpha * k) combined colored)"

definition composite :: "(nat \<Rightarrow> bool) \<Rightarrow> nat \<Rightarrow> real list" where
  "composite on n = foldl (\<lambda>combined i. blend combined (colored_pixel i (on i))) [0, 0, 0, 0] [0..<n]"

text \<open>The four channels of the pixel at row \<open>y\<close> and column \<open>x\<close>.\<close>

definition pixel :: "tensor \<Rightarrow> nat \<Rightarrow> nat \<Rightarrow> real list" where
  "pixel t y x = map (\<lambda>c. elems t [y, x, c]) [0..<4]"

text \<open>
  What nearest-neighbour interpolation to a size \<open>(h, w)\<close> guarantees when it returns: the
  element type is kept, the last two dimensions become \<open>h\<close> and \<open>w\<close>, and every entry of
  the result is the entry of the input at some position of the same batch and channel.
\<close>

definition nearest_neighbour :: "(tensor \<Rightarrow> nat \<times> nat \<Rightarrow> error + tensor) \<Rightarrow> bool" where
  "nearest_neighbour f =
     (\<forall>t h w r. f t (h, w) = Inr r \<longrightarrow>
        dtype r = dtype t \<and> shape r = take 2 (shape t) @ [h, w] \<and>
        (\<forall>idx. in_bounds (shape r) idx \<longrightarrow>
           (\<exists>src. in_bounds (shape t) src \<and> take 2 src = take 2 idx \<and> elems r idx = elems t src)))"

subsection \<open>Inputs and states for the examples\<close>

definition example_images :: "tensor list" where
  "example_images = [example_frame (1 / 2), example_frame (1 / 4)]"

definition example_run :: "(error + tensor \<times> tensor) \<times> nat state" where
  "example_run =
     segment_images example_env example_images 0 (Some ''[[1, 2], [3, 4]]'') (Some ''[1, 0]'')
       (1 / 2) False (init (\<lambda>_. 0))"

definition example_fresh :: "nat state" where
  "example_fresh = (init (\<lambda>_. 0))\<lparr>predictor := Some 0\<rparr>"

definition example_tracking :: "nat state" where
  "example_tracking = (init (\<lambda>_. 0))\<lparr>predictor := Some 0, if_init := True\<rparr>"

definition example_two_objects :: tensor where
  "example_two_objects = \<lparr>lib = Torch, dtype = Float32, shape = [2, 1, 1, 1], elems = (\<lambda>_. 1)\<rparr>"

definition example_no_objects :: tensor where
  "example_no_objects = \<lparr>lib = Torch, dtype = Float32, shape = [0, 1, 1, 1], elems = (\<lambda>_. 0)\<rparr>"

text \<open>
  The tensors that the example run goes through: the logits of the first object, their
  comparison with the threshold 1/2 as a \<open>float32\<close> tensor of four dimensions, its
  interpolation to four rows and four columns, and the mask of the frame.
\<close>

definition example_block :: tensor where
  "example_block =
     \<lparr>lib = Torch, dtype = Float32, shape = [2, 2],
      elems = (\<lambda>idx. elems example_logits (0 # 0 # idx))\<rparr>"

definition example_binary :: tensor where
  "example_binary = to_float (unsqueeze0 (unsqueeze0 (to_byte (torch_gt example_block (1 / 2)))))"

definition example_scaled :: tensor where
  "example_scaled =
     \<lparr>lib = Torch, dtype = Float32, shape = [1, 1, 4, 4],
      elems = (\<lambda>idx. elems example_binary
                 [idx ! 0, idx ! 1, min ((idx ! 2 * 2) div 4) (2 - 1),
                  min ((idx ! 3 * 2) div 4) (2 - 1)])\<rparr>"

definition example_mask :: tensor where
  "example_mask = to_byte (squeeze0 (squeeze0 example_scaled))"

text \<open>A later call on a node that is initialized, with another model and no prompt.\<close>
definition example_rerun :: "(error + tensor \<times> tensor) \<times> nat state" where
  "example_rerun =
     segment_images example_env example_images 1 None None (1 / 2) False example_tracking"

section \<open>Properties of the loader\<close>

lemma loadmodel_example_fp32_downloads:
  "loadmodel example_host ''sam2_hiera_tiny.pt'' ''realtime'' ''cpu'' ''fp32'' [] =
     (Inr \<lparr>sm_model = 0, sm_dtype = Float32, sm_device = ''cpu'',
           sm_segmentor = ''realtime'', sm_version = ''2.0''\<rparr>,
      [''/models/sam2/sam2_hiera_tiny.pt''])"
  by (simp add: loadmodel_def example_host_def bindS_def retS_def liftS_def raiseS_def
      dtype_of_def device_of_def path_join_def load_checkpoint_def url_def Let_def)

text \<open>
  Claim C8. \<open>loadmodel\<close> raises \<open>ValueError\<close> whenever the device is \<open>cpu\<close> and the
  precision is not \<open>fp32\<close>. The check is the first statement: the host state comes back
  as it was given, whatever the host's operations are, so nothing was downloaded,
  composed or instantiated.
\<close>

theorem loadmodel_cpu_precision_raises:
  "device_name = ''cpu'' \<Longrightarrow> precision \<noteq> ''fp32'' \<Longrightarrow>
     loadmodel H model_name segmentor_name device_name precision w = (Inl ValueError, w)"
  by (simp add: loadmodel_def raiseS_def)

theorem loadmodel_cpu_precision_raises_witness:
  "loadmodel example_host ''sam2_hiera_tiny.pt'' ''realtime'' ''cpu'' ''fp16'' [] =
     (Inl ValueError, [])"
  using loadmodel_cpu_precision_raises [of "''cpu''" "''fp16''" example_host
      "''sam2_hiera_tiny.pt''" "''realtime''" "[]"]
  by simp

section \<open>Properties of the masks\<close>

subsection \<open>Arrays\<close>

lemma broadcast_alpha: "broadcast_shapes [h, w, Suc 0] [h, w, 4] = Some [h, w, 4]"
  by (simp add: broadcast_shapes_def)

lemma broadcast_same: "broadcast_shapes [h, w, 4] [h, w, 4] = Some [h, w, 4]"
  by (simp add: broadcast_shapes_def)

lemma bidx3: "y < h \<Longrightarrow> x < w \<Longrightarrow> bidx [h, w, d] [y, x, c] = [y, x, if d = 1 then 0 else c]"
  by (auto simp: bidx_def)

lemma np_add_returns:
  "broadcast_shapes (shape a) (shape b) = Some sh \<Longrightarrow> \<exists>t. np_add a b = Inr t \<and> shape t = sh"
  by (simp add: np_add_def np_binop_def)

lemma mask_assign_pixels:
  assumes "shape cm = [h, w]" "length v = 4"
  shows "\<exists>colored. mask_assign (np_zeros [h, w, 4]) (gt_zero cm) v = Inr colored
     \<and> shape colored = [h, w, 4]
     \<and> (\<forall>y x c. elems colored [y, x, c] = (if 0 < elems cm [y, x] then v ! c else 0))"
  using assms by (simp add: mask_assign_def Let_def gt_zero_def np_zeros_def)

lemma slice_alpha:
  assumes "shape colored = [h, w, 4]"
  shows "\<exists>a. slice_last colored 3 4 = Inr a \<and> shape a = [h, w, Suc 0]
     \<and> (\<forall>y x. elems a [y, x, 0] = elems colored [y, x, 3])"
  using assms by (simp add: slice_last_def)

lemma np_mul_alpha:
  assumes "shape a = [h, w, Suc 0]" "shape b = [h, w, 4]"
  shows "\<exists>t. np_mul a b = Inr t \<and> shape t = [h, w, 4]
     \<and> (\<forall>y<h. \<forall>x<w. \<forall>c. elems t [y, x, c] = elems a [y, x, 0] * elems b [y, x, c])"
  using assms by (simp add: np_mul_def np_binop_def broadcast_alpha bidx3)

lemma np_add_same:
  assumes "shape a = [h, w, 4]" "shape b = [h, w, 4]"
  shows "\<exists>t. np_add a b = Inr t \<and> shape t = [h, w, 4]
     \<and> (\<forall>y<h. \<forall>x<w. \<forall>c. elems t [y, x, c] = elems a [y, x, c] + elems b [y, x, c])"
  using assms by (simp add: np_add_def np_binop_def broadcast_same bidx3)

lemma torch_stack_nonempty: "torch_stack ts = Inr t \<Longrightarrow> ts \<noteq> []"
  by (auto simp: torch_stack_def)

subsection \<open>Compositing of the objects\<close>

lemma length_colors: "length colors = 5"
  by (simp add: colors_def)

lemma length_color: "length (colors ! (i mod 5)) = 3"
proof -
  have "i mod 5 < 5" by simp
  then have "i mod 5 \<in> {0, 1, 2, 3, 4}" by auto
  then show ?thesis by (auto simp: colors_def)
qed

lemma length_colored_pixel [simp]: "length (colored_pixel i on) = 4"
  by (simp add: colored_pixel_def length_color)

lemma colored_pixel_nth:
  assumes "c < 4"
  shows "colored_pixel i on ! c = (if on then (colors ! (i mod 5) @ [128]) ! c else 0)"
proof -
  from assms have "c \<in> {0, 1, 2, 3}" by auto
  then have "[0, 0, 0, 0 :: real] ! c = 0" by auto
  then show ?thesis by (simp add: colored_pixel_def)
qed

lemma pixel_nth: "c < 4 \<Longrightarrow> pixel t y x ! c = elems t [y, x, c]"
  by (simp add: pixel_def)

lemma length_pixel [simp]: "length (pixel t y x) = 4"
  by (simp add: pixel_def)

lemma blend_nth:
  "length p = 4 \<Longrightarrow> length q = 4 \<Longrightarrow> c < 4 \<Longrightarrow>
     blend p q ! c = (1 - q ! 3 / 255) * p ! c + q ! 3 / 255 * q ! c"
  by (simp add: blend_def Let_def)

lemma length_blend [simp]: "length p = 4 \<Longrightarrow> length q = 4 \<Longrightarrow> length (blend p q) = 4"
  by (simp add: blend_def Let_def)

lemma pixel_zeros: "pixel (np_zeros sh) y x = [0, 0, 0, 0]"
  by (simp add: pixel_def np_zeros_def upt_rec)

lemma blend_object_step:
  assumes "shape combined = [h, w, 4]" "object_mask E msk fs h w i = Inr cm" "shape cm = [h, w]"
  shows "\<exists>t. blend_object E msk fs h w i combined = Inr t \<and> shape t = [h, w, 4]
     \<and> (\<forall>y<h. \<forall>x<w. pixel t y x = blend (pixel combined y x) (colored_pixel i (0 < elems cm [y, x])))"
proof -
  define v where "v = colors ! (i mod 5) @ [128]"
  have lv: "length v = 4" by (simp add: v_def length_color)
  from mask_assign_pixels [OF assms(3) lv] obtain colored where
    colored: "mask_assign (np_zeros [h, w, 4]) (gt_zero cm) v = Inr colored"
      "shape colored = [h, w, 4]"
      "\<And>y x c. elems colored [y, x, c] = (if 0 < elems cm [y, x] then v ! c else 0)"
    by blast
  from slice_alpha [OF colored(2)] obtain a where
    a: "slice_last colored 3 4 = Inr a" "shape a = [h, w, Suc 0]"
      "\<And>y x. elems a [y, x, 0] = elems colored [y, x, 3]"
    by blast
  define alpha where "alpha = np_div_scalar a 255"
  have sa: "shape alpha = [h, w, Suc 0]" "shape (np_rsub_scalar 1 alpha) = [h, w, Suc 0]"
    by (simp_all add: alpha_def np_div_scalar_def np_rsub_scalar_def a(2))
  have ea: "elems alpha [y, x, 0] = elems colored [y, x, 3] / 255"
    "elems (np_rsub_scalar 1 alpha) [y, x, 0] = 1 - elems colored [y, x, 3] / 255" for y x
    by (simp_all add: alpha_def np_div_scalar_def np_rsub_scalar_def a(3))
  from np_mul_alpha [OF sa(2) assms(1)] obtain t1 where
    t1: "np_mul (np_rsub_scalar 1 alpha) combined = Inr t1" "shape t1 = [h, w, 4]"
    "\<And>y x c. y < h \<Longrightarrow> x < w \<Longrightarrow>
       elems t1 [y, x, c] = elems (np_rsub_scalar 1 alpha) [y, x, 0] * elems combined [y, x, c]"
    by blast
  from np_mul_alpha [OF sa(1) colored(2)] obtain t2 where
    t2: "np_mul alpha colored = Inr t2" "shape t2 = [h, w, 4]"
    "\<And>y x c. y < h \<Longrightarrow> x < w \<Longrightarrow>
       elems t2 [y, x, c] = elems alpha [y, x, 0] * elems colored [y, x, c]"
    by blast
  from np_add_same [OF t1(2) t2(2)] obtain t where
    t: "np_add t1 t2 = Inr t" "shape t = [h, w, 4]"
    "\<And>y x c. y < h \<Longrightarrow> x < w \<Longrightarrow> elems t [y, x, c] = elems t1 [y, x, c] + elems t2 [y, x, c]"
    by blast
  have "blend_object E msk fs h w i combined = Inr t"
    using assms(2) colored(1) a(1) t1(1) t2(1) t(1)
    by (simp add: blend_object_def bindE_def Let_def length_colors v_def alpha_def)
  moreover have "pixel t y x = blend (pixel combined y x) (colored_pixel i (0 < elems cm [y, x]))"
    if yx: "y < h" "x < w" for y x
  proof (rule nth_equalityI)
    show "length (pixel t y x) = length (blend (pixel combined y x) (colored_pixel i (0 < elems cm [y, x])))"
      by simp
  next
    fix c assume "c < length (pixel t y x)"
    then have c: "c < 4" by simp
    have 3: "(3::nat) < 4" by simp
    have "pixel t y x ! c = (1 - elems colored [y, x, 3] / 255) * elems combined [y, x, c]
           + elems colored [y, x, 3] / 255 * elems colored [y, x, c]"
      using yx by (simp add: pixel_nth [OF c] t(3) t1(3) t2(3) ea)
    also have "\<dots> = blend (pixel combined y x) (colored_pixel i (0 < elems cm [y, x])) ! c"
      by (simp add: blend_nth [OF _ _ c] pixel_nth [OF c] colored_pixel_nth [OF c]
          colored_pixel_nth [OF 3] colored(3) v_def)
    finally show "pixel t y x ! c = blend (pixel combined y x) (colored_pixel i (0 < elems cm [y, x])) ! c" .
  qed
  ultimately show ?thesis using t(2) by blast
qed

lemma blend_objects_pixels:
  assumes "shape combined = [h, w, 4]"
    "\<And>i. i \<in> set objs \<Longrightarrow> object_mask E msk fs h w i = Inr (cm i) \<and> shape (cm i) = [h, w]"
  shows "\<exists>t. blend_objects E msk fs h w objs combined = Inr t \<and> shape t = [h, w, 4]
     \<and> (\<forall>y<h. \<forall>x<w. pixel t y x =
           foldl (\<lambda>p i. blend p (colored_pixel i (0 < elems (cm i) [y, x]))) (pixel combined y x) objs)"
  using assms
proof (induction objs arbitrary: combined)
  case Nil
  then show ?case by simp
next
  case (Cons i objs)
  from Cons.prems(2) [of i] have i: "object_mask E msk fs h w i = Inr (cm i)" "shape (cm i) = [h, w]"
    by simp_all
  from blend_object_step [OF Cons.prems(1) i] obtain t1 where
    t1: "blend_object E msk fs h w i combined = Inr t1" "shape t1 = [h, w, 4]"
      "\<And>y x. y < h \<Longrightarrow> x < w \<Longrightarrow>
         pixel t1 y x = blend (pixel combined y x) (colored_pixel i (0 < elems (cm i) [y, x]))"
    by blast
  from Cons.IH [OF t1(2)] Cons.prems(2) obtain t where
    t: "blend_objects E msk fs h w objs t1 = Inr t" "shape t = [h, w, 4]"
      "\<And>y x. y < h \<Longrightarrow> x < w \<Longrightarrow> pixel t y x =
           foldl (\<lambda>p i. blend p (colored_pixel i (0 < elems (cm i) [y, x]))) (pixel t1 y x) objs"
    by fastforce
  show ?case
    using t1(1) t(1,2) by (simp add: bindE_def t(3) t1(3))
qed

lemma process_mask_pixels:
  assumes "dim_at (shape msk) 0 = Inr n" "0 < n"
    "dim_at frame_shape 0 = Inr h" "dim_at frame_shape 1 = Inr w"
    "\<And>i. i < n \<Longrightarrow> object_mask E msk frame_shape h w i = Inr (cm i) \<and> shape (cm i) = [h, w]"
  shows "\<exists>out. process_mask E msk frame_shape = Inr out \<and> dtype out = UInt8
     \<and> shape out = [h, w, 3]
     \<and> (\<forall>y<h. \<forall>x<w. \<forall>c<3.
           elems out [y, x, c] = uint8_of (composite (\<lambda>i. 0 < elems (cm i) [y, x]) n ! c))"
proof -
  have "shape (np_zeros [h, w, 4]) = [h, w, 4]" by (simp add: np_zeros_def)
  from blend_objects_pixels [of "np_zeros [h, w, 4]" h w "[0..<n]" E msk frame_shape cm, OF this]
    assms(5)
  obtain t where
    t: "blend_objects E msk frame_shape h w [0..<n] (np_zeros [h, w, 4]) = Inr t"
      "shape t = [h, w, 4]"
      "\<And>y x. y < h \<Longrightarrow> x < w \<Longrightarrow> pixel t y x = composite (\<lambda>i. 0 < elems (cm i) [y, x]) n"
    by (auto simp: composite_def pixel_zeros)
  define out where "out = to_byte \<lparr>lib = lib t, dtype = dtype t, shape = [h, w, 3],
       elems = (\<lambda>idx. elems t (butlast idx @ [last idx + 0]))\<rparr>"
  have "process_mask E msk frame_shape = Inr out"
    using assms(1-4) t(1,2) by (simp add: process_mask_def bindE_def slice_last_def out_def)
  moreover have "elems out [y, x, c] = uint8_of (composite (\<lambda>i. 0 < elems (cm i) [y, x]) n ! c)"
    if "y < h" "x < w" "c < 3" for y x c
  proof -
    from that(3) have c: "c < 4" by simp
    have "elems out [y, x, c] = uint8_of (pixel t y x ! c)"
      by (simp add: out_def to_byte_def pixel_nth [OF c])
    with t(3) [OF that(1,2)] show ?thesis by simp
  qed
  moreover have "dtype out = UInt8" "shape out = [h, w, 3]"
    by (simp_all add: out_def to_byte_def)
  ultimately show ?thesis by blast
qed

lemma process_mask_empty:
  assumes "dim_at (shape msk) 0 = Inr 0" "dim_at frame_shape 0 = Inr h" "dim_at frame_shape 1 = Inr w"
  shows "process_mask E msk frame_shape = Inr (np_zeros [h, w])"
  using assms by (simp add: process_mask_def bindE_def)

text \<open>
  \<open>_process_mask\<close> reads its argument as one mask per object. Given a mask of two
  dimensions, as \<open>segment_images\<close> gives it, \<open>mask[0, 0]\<close> is a single entry, an array of no
  dimension, which has not the size of the frame and goes to \<open>cv2.resize\<close>; a
  \<open>cv2.resize\<close> that refuses such an array makes \<open>_process_mask\<close> raise.
\<close>

lemma process_mask_2d_raises:
  assumes "lib msk = Torch" "shape msk = [h, w]" "0 < h" "0 < w"
    "dim_at frame_shape 0 = Inr fh" "dim_at frame_shape 1 = Inr fw"
    "\<And>t dsize. shape t = [] \<Longrightarrow> cv2_resize E t dsize = Inl e"
  shows "process_mask E msk frame_shape = Inl e"
proof -
  from assms(5,6) have l: "take 2 frame_shape \<noteq> []"
    by (auto simp: dim_at_def split: if_splits)
  have "object_mask E msk frame_shape fh fw 0 = Inl e"
    using assms(1-4) l
    by (simp add: object_mask_def bindE_def index2_def cpu_numpy_def gt_zero_def Let_def
        np_mul_uint8_def to_byte_def assms(7))
  then have "blend_objects E msk frame_shape fh fw (0 # [1..<h]) (np_zeros [fh, fw, 4]) = Inl e"
    by (simp add: blend_object_def bindE_def)
  moreover from assms(3) have "[0..<h] = 0 # [1..<h]" by (simp add: upt_conv_Cons)
  ultimately show ?thesis
    using assms(2,3,5,6) by (simp add: process_mask_def bindE_def dim_at_def)
qed

lemma object_mask_same_size:
  assumes "lib msk = Torch" "shape msk = [n, k, h, w]" "i < n" "0 < k"
    "take 2 frame_shape = [h, w]"
  shows "\<exists>cm. object_mask E msk frame_shape h w i = Inr cm \<and> shape cm = [h, w]
     \<and> (\<forall>y x. (0 < elems cm [y, x]) = (0 < elems msk [i, 0, y, x]))"
  using assms
  by (simp add: object_mask_def bindE_def index2_def Let_def np_mul_uint8_def to_byte_def
      gt_zero_def cpu_numpy_def uint8_of_def)

text \<open>The pixel covered by object 0 and object 1, in exact arithmetic.\<close>

lemma u2: "[0..<2] = [0, Suc 0]"
  by (simp add: upt_conv_Cons)

lemma c0: "colored_pixel 0 True = [255, 0, 255, 128]" "colored_pixel (Suc 0) True = [0, 255, 255, 128]"
  by (simp_all add: colored_pixel_def colors_def)

lemma b1: "blend [0, 0, 0, 0] [255, 0, 255, 128] = [128, 0, 128, 16384 / 255]"
  by (simp add: blend_def Let_def)

lemma b2: "blend [128, 0, 128, 16384 / 255] [0, 255, 255, 128] = [16256 / 255, 128, 48896 / 255, 6258688 / 65025]"
  by (simp add: blend_def Let_def)

lemma composite_two:
  "composite (\<lambda>i. True) 2 = [16256 / 255, 128, 48896 / 255, 6258688 / 65025]"
  by (simp add: composite_def u2 c0 b1 b2)

lemma u8: "uint8_of (16256 / 255) = 63" "uint8_of 128 = 128" "uint8_of (48896 / 255) = 191"
  by (simp_all add: uint8_of_def)

lemma example_env_fields:
  "model_to example_env = retS ()"
  "load_first_frame example_env = (\<lambda>frame. retS ())"
  "add_new_prompt example_env = (\<lambda>frame_idx obj_id points labels. retS (frame_idx, [obj_id], example_logits))"
  "track example_env = (\<lambda>frame n. (Inr ([1], example_logits), Suc n))"
  "literal_eval example_env = example_literal_eval"
  "py_iter example_env = example_iter"
  "py_int example_env = example_int"
  "interpolate_nearest example_env = example_interpolate"
  "cv2_resize example_env = example_resize"
  "cv2_circle example_env = example_circle"
  "torch_add example_env = example_add"
  "round_to example_env = example_round"
  by (simp_all add: example_env_def)

text \<open>
  Claim C4, as amended. For every mask with at least one object, whose object masks have
  the height and width of the frame (as they are, or as \<open>cv2.resize\<close> returns them),
  \<open>_process_mask\<close> returns a \<open>uint8\<close> image of the frame's height and width with three
  channels. Each of its pixels is the conversion to \<open>uint8\<close> of the first three channels of
  the composite: object \<open>i\<close> colored with \<open>colors[i mod 5]\<close> at alpha 128 where its mask is
  on, the objects accumulated in index order by
  \<open>combined = (1 - alpha) * combined + alpha * colored\<close>.
\<close>

theorem process_mask_composite:
  assumes "dim_at (shape msk) 0 = Inr n" "0 < n"
    "dim_at frame_shape 0 = Inr h" "dim_at frame_shape 1 = Inr w"
    "\<And>i. i < n \<Longrightarrow> object_mask E msk frame_shape h w i = Inr (cm i) \<and> shape (cm i) = [h, w]"
  shows "\<exists>out. process_mask E msk frame_shape = Inr out \<and> dtype out = UInt8
     \<and> shape out = [h, w, 3]
     \<and> (\<forall>y<h. \<forall>x<w. \<forall>c<3.
           elems out [y, x, c] = uint8_of (composite (\<lambda>i. 0 < elems (cm i) [y, x]) n ! c))"
  using assms by (rule process_mask_pixels)

text \<open>
  Two objects that both cover the one pixel of the frame: purple under yellow, each at
  alpha 128, gives the pixel (63, 128, 191).
\<close>

theorem process_mask_composite_witness:
  "\<exists>out. process_mask example_env example_two_objects [1, 1, 3] = Inr out
     \<and> dtype out = UInt8 \<and> shape out = [1, 1, 3]
     \<and> elems out [0, 0, 0] = 63 \<and> elems out [0, 0, 1] = 128 \<and> elems out [0, 0, 2] = 191"
proof -
  define cm where
    "cm i = np_mul_uint8 (to_byte ((gt_zero
              \<lparr>lib = Torch, dtype = Float32, shape = [1, 1],
               elems = (\<lambda>idx. elems example_two_objects (i # 0 # idx))\<rparr>)\<lparr>lib := Numpy\<rparr>)) 255"
    for i
  have om: "object_mask example_env example_two_objects [1, 1, 3] 1 1 i = Inr (cm i)
      \<and> shape (cm i) = [1, 1]" if "i < 2" for i
    using that
    by (simp add: object_mask_def bindE_def index2_def example_two_objects_def Let_def cm_def
        np_mul_uint8_def to_byte_def gt_zero_def cpu_numpy_def)
  have on: "(0 < elems (cm i) [0, 0]) = True" for i
    by (simp add: cm_def np_mul_uint8_def to_byte_def gt_zero_def uint8_of_def
        example_two_objects_def)
  have d: "dim_at (shape example_two_objects) 0 = Inr 2" "(0::nat) < 2"
    "dim_at [1, 1, 3] 0 = Inr 1" "dim_at [1, 1, 3] 1 = Inr 1"
    by (simp_all add: dim_at_def example_two_objects_def)
  have "\<exists>out. process_mask example_env example_two_objects [1, 1, 3] = Inr out
     \<and> dtype out = UInt8 \<and> shape out = [1, 1, 3]
     \<and> (\<forall>y<1. \<forall>x<1. \<forall>c<3.
           elems out [y, x, c] = uint8_of (composite (\<lambda>i. 0 < elems (cm i) [y, x]) 2 ! c))"
    by (rule process_mask_composite [OF d om])
  then obtain out where
    o: "process_mask example_env example_two_objects [1, 1, 3] = Inr out
     \<and> dtype out = UInt8 \<and> shape out = [1, 1, 3]
     \<and> (\<forall>y<1. \<forall>x<1. \<forall>c<3.
           elems out [y, x, c] = uint8_of (composite (\<lambda>i. 0 < elems (cm i) [y, x]) 2 ! c))" ..
  then have e: "elems out [0, 0, c] = uint8_of (composite (\<lambda>i. True) 2 ! c)" if "c < 3" for c
    using that by (simp add: on)
  have "elems out [0, 0, 0] = 63" "elems out [0, 0, 1] = 128" "elems out [0, 0, 2] = 191"
    by (simp_all add: e composite_two u8)
  with o show ?thesis by (intro exI [of _ out]) simp
qed

text \<open>
  With no object at all the function leaves through its guard for empty masks, and what
  it returns has two dimensions, not three channels.
\<close>

theorem process_mask_empty_counterexample:
  "process_mask example_env example_no_objects [1, 1, 3] = Inr (np_zeros [1, 1])
   \<and> shape (np_zeros [1, 1]) \<noteq> [1, 1, 3]"
  by (simp add: process_mask_empty dim_at_def example_no_objects_def np_zeros_def)

subsection \<open>The binary mask of a frame\<close>

lemma nearest_neighbour_example: "nearest_neighbour example_interpolate"
  unfolding nearest_neighbour_def
proof (intro allI impI)
  fix t h w r assume a: "example_interpolate t (h, w) = Inr r"
  then obtain b c hi wi where sh: "shape t = [b, c, hi, wi]" "hi \<noteq> 0" "wi \<noteq> 0"
    by (auto simp: example_interpolate_def split: list.splits if_splits)
  with a have r: "r = \<lparr>lib = lib t, dtype = dtype t, shape = [b, c, h, w],
                    elems = (\<lambda>idx. elems t [idx ! 0, idx ! 1,
                                             min ((idx ! 2 * hi) div h) (hi - 1),
                                             min ((idx ! 3 * wi) div w) (wi - 1)])\<rparr>"
    by (auto simp: example_interpolate_def split: if_splits)
  have "\<exists>src. in_bounds (shape t) src \<and> take 2 src = take 2 idx \<and> elems r idx = elems t src"
    if "in_bounds (shape r) idx" for idx
  proof -
    from that obtain i0 i1 y x where idx: "idx = [i0, i1, y, x]" "i0 < b" "i1 < c"
      by (auto simp: r in_bounds_def list_all2_Cons2)
    let ?src = "[i0, i1, min ((y * hi) div h) (hi - 1), min ((x * wi) div w) (wi - 1)]"
    have "in_bounds (shape t) ?src" using sh idx by (simp add: in_bounds_def min_less_iff_disj)
    moreover have "take 2 ?src = take 2 idx" by (simp add: idx)
    moreover have "elems r idx = elems t ?src" by (simp add: r idx)
    ultimately show ?thesis by blast
  qed
  then show "dtype r = dtype t \<and> shape r = take 2 (shape t) @ [h, w] \<and>
        (\<forall>idx. in_bounds (shape r) idx \<longrightarrow>
           (\<exists>src. in_bounds (shape t) src \<and> take 2 src = take 2 idx \<and> elems r idx = elems t src))"
    by (simp add: r sh)
qed

lemma floor_log_half: "\<lfloor>log 2 \<bar>1 / 2 :: real\<bar>\<rfloor> = - 1"
proof -
  have "log 2 \<bar>1 / 2 :: real\<bar> = of_int (- 1)" by (simp add: log_divide)
  then show ?thesis by (simp only: floor_of_int)
qed

lemma round_half_even_int: "round_half_even (of_int k) = k"
  by (simp add: round_half_even_def)

text \<open>1/2 is a value of every floating type: its conversion leaves it as it is.\<close>

lemma example_round_half: "example_round d (1 / 2) = 1 / 2"
proof -
  have u: "(2::real) powr (- real n) = 1 / 2 ^ n" for n
    by (simp add: powr_minus powr_realpow divide_inverse)
  have m: "max (- 1) (min_exponent d) = - 1" by (cases d) simp_all
  have p: "0 < significand_bits d" by (cases d) simp_all
  have "(1 / 2) / (1 / 2 ^ significand_bits d)
          = (of_int (2 ^ (significand_bits d - 1)) :: real)"
    using p by (cases "significand_bits d") simp_all
  then have r: "round_half_even ((1 / 2) / (1 / 2 ^ significand_bits d))
                  = 2 ^ (significand_bits d - 1)"
    by (simp only: round_half_even_int)
  have "example_round d (1 / 2)
          = of_int (round_half_even ((1 / 2) / (1 / 2 ^ significand_bits d)))
            * (1 / 2 ^ significand_bits d)"
    unfolding example_round_def floor_log_half m Let_def
    using u [of "significand_bits d"] by simp
  also have "\<dots> = 1 / 2"
    unfolding r using p by (cases "significand_bits d") simp_all
  finally show ?thesis .
qed

lemma block_entries:
  "elems example_block [0, 0] = 1" "elems example_block [0, Suc 0] = - 1"
  "elems example_block [Suc 0, 0] = - 1" "elems example_block [Suc 0, Suc 0] = 1"
  by (simp_all add: example_block_def example_logits_def)

lemma binary_entries:
  "elems example_binary [0, 0, 0, 0] = 1" "elems example_binary [0, 0, 0, Suc 0] = 0"
  "elems example_binary [0, 0, Suc 0, 0] = 0" "elems example_binary [0, 0, Suc 0, Suc 0] = 1"
  by (simp_all add: example_binary_def to_float_def unsqueeze0_def to_byte_def torch_gt_def
      block_entries uint8_of_def)

lemma index2_example_logits: "index2 example_logits 0 0 = Inr example_block"
  by (simp add: index2_def example_logits_def example_block_def)

lemma interpolate_example_binary: "example_interpolate example_binary (4, 4) = Inr example_scaled"
  by (simp add: example_interpolate_def example_binary_def to_float_def unsqueeze0_def
      to_byte_def torch_gt_def example_block_def example_scaled_def)

lemma example_mask_entries:
  "lib example_mask = Torch" "dtype example_mask = UInt8" "shape example_mask = [4, 4]"
  "elems example_mask [0, 0] = 1" "elems example_mask [0, 3] = 0"
  "elems example_mask [3, 0] = 0" "elems example_mask [3, 3] = 1"
  by (simp_all add: example_mask_def to_byte_def squeeze0_def example_scaled_def binary_entries
      uint8_of_def)

lemma frame_mask_example:
  "frame_mask example_env (1 / 2) (to_float (example_frame v)) (Some example_logits)
     = Inr example_mask"
proof -
  have d: "dim_at (shape example_logits) 0 = Inr 1"
    "dim_at (shape (to_float (example_frame v))) 0 = Inr 4"
    "dim_at (shape (to_float (example_frame v))) (Suc 0) = Inr 4"
    "comparison_dtype (dtype example_block) = Float32"
    by (simp_all add: dim_at_def example_logits_def to_float_def example_frame_def
        example_block_def comparison_dtype_def is_floating_def)
  show ?thesis
    by (simp add: frame_mask_def bindE_def d index2_example_logits Let_def example_env_fields
        example_round_half example_binary_def [symmetric] interpolate_example_binary
        example_mask_def)
qed

text \<open>
  Claim C7. When the model returns no object mask (the first dimension of
  \<open>out_mask_logits\<close> is 0), the mask of the frame is the \<open>uint8\<close> tensor of the frame's
  height and width whose entries are all 1, so the whole frame counts as masked.
\<close>

theorem frame_mask_no_objects:
  assumes "dim_at (shape logits) 0 = Inr 0"
    "dim_at (shape frame) 0 = Inr h" "dim_at (shape frame) 1 = Inr w"
  shows "frame_mask E threshold frame (Some logits) = Inr (torch_ones [h, w])
     \<and> dtype (torch_ones [h, w]) = UInt8 \<and> shape (torch_ones [h, w]) = [h, w]
     \<and> (\<forall>idx. elems (torch_ones [h, w]) idx = 1)"
  using assms by (simp add: frame_mask_def bindE_def torch_ones_def)

theorem frame_mask_no_objects_witness:
  "frame_mask example_env (1 / 2) (to_float (example_frame 1)) (Some example_no_objects)
     = Inr (torch_ones [4, 4])
   \<and> dtype (torch_ones [4, 4]) = UInt8 \<and> shape (torch_ones [4, 4]) = [4, 4]
   \<and> (\<forall>idx. elems (torch_ones [4, 4]) idx = 1)"
  using frame_mask_no_objects [of example_no_objects "to_float (example_frame 1)" 4 4
      example_env "1 / 2"]
  by (simp add: dim_at_def example_no_objects_def to_float_def example_frame_def)

text \<open>
  Claim C3. When the model returns at least one object mask, the mask of the frame is
  \<open>out_mask_logits[0, 0]\<close> compared entry by entry with the threshold, interpolated to
  the height and width of the frame and converted to \<open>uint8\<close>. The comparison is torch's:
  the threshold, a Python float, is first converted to the element type of the logits,
  and it is the converted threshold that the logits are compared with. With a
  nearest-neighbour interpolation the mask has the frame's height and width, its entries
  are 0 or 1, and each is 1 exactly when the logit of the first object at the position it
  was taken from exceeds the converted threshold.
\<close>

theorem frame_mask_thresholds_first_object:
  assumes "nearest_neighbour (interpolate_nearest E)"
    "dim_at (shape logits) 0 = Inr n" "0 < n"
    "frame_mask E threshold frame (Some logits) = Inr m"
  shows "\<exists>l h w r. index2 logits 0 0 = Inr l
     \<and> dim_at (shape frame) 0 = Inr h \<and> dim_at (shape frame) 1 = Inr w
     \<and> interpolate_nearest E
          (to_float (unsqueeze0 (unsqueeze0 (to_byte
             (torch_gt l (round_to E (comparison_dtype (dtype l)) threshold))))))
          (h, w) = Inr r
     \<and> m = to_byte (squeeze0 (squeeze0 r))
     \<and> dtype m = UInt8 \<and> shape m = [h, w]
     \<and> (\<forall>y<h. \<forall>x<w. elems m [y, x] \<in> {0, 1}
           \<and> (\<exists>src. in_bounds (shape l) src
                 \<and> elems m [y, x]
                     = (if elems l src > round_to E (comparison_dtype (dtype l)) threshold
                        then 1 else 0)))"
proof -
  define c where "c = round_to E (comparison_dtype (dtype (projr (index2 logits 0 0)))) threshold"
  from assms(2-4) obtain l h w r where
    l: "index2 logits 0 0 = Inr l" and h: "dim_at (shape frame) 0 = Inr h"
    and w: "dim_at (shape frame) 1 = Inr w"
    and r: "interpolate_nearest E
              (to_float (unsqueeze0 (unsqueeze0 (to_byte
                 (torch_gt l (round_to E (comparison_dtype (dtype l)) threshold))))))
              (h, w) = Inr r"
    and m: "m = to_byte (squeeze0 (squeeze0 r))"
    by (auto simp: frame_mask_def bindE_def Let_def split: sum.splits)
  have c: "round_to E (comparison_dtype (dtype l)) threshold = c" by (simp add: c_def l)
  let ?inp = "to_float (unsqueeze0 (unsqueeze0 (to_byte (torch_gt l c))))"
  note r' = r [unfolded c]
  have si: "shape ?inp = 1 # 1 # shape l"
    by (simp add: to_float_def unsqueeze0_def to_byte_def torch_gt_def)
  from assms(1) r' have
    sr: "shape r = [1, 1, h, w]" and
    er: "\<And>idx. in_bounds [1, 1, h, w] idx \<Longrightarrow>
          \<exists>src. in_bounds (shape ?inp) src \<and> take 2 src = take 2 idx
                \<and> elems r idx = elems ?inp src"
    unfolding nearest_neighbour_def using si
    by (metis append_Cons append_Nil take_Suc_Cons take_0 numeral_2_eq_2)+
  have sm: "shape m = [h, w]" "dtype m = UInt8"
    by (simp_all add: m to_byte_def squeeze0_def sr)
  have em: "elems m [y, x] = uint8_of (elems r [0, 0, y, x])" for y x
    by (simp add: m to_byte_def squeeze0_def sr)
  have px: "elems m [y, x] \<in> {0, 1} \<and> (\<exists>src. in_bounds (shape l) src
                 \<and> elems m [y, x] = (if elems l src > c then 1 else 0))"
    if "y < h" "x < w" for y x
  proof -
    from that have "in_bounds [1, 1, h, w] [0, 0, y, x]" by (simp add: in_bounds_def)
    from er [OF this] obtain src where
      src: "in_bounds (shape ?inp) src" "take 2 src = [0, 0]"
        "elems r [0, 0, y, x] = elems ?inp src"
      by auto
    from src(1,2) obtain src' where s': "src = 0 # 0 # src'" "in_bounds (shape l) src'"
      unfolding si in_bounds_def by (cases src; cases "tl src") (auto simp: list_all2_Cons2)
    have "elems ?inp src = (if elems l src' > c then 1 else 0)"
      by (simp add: s' to_float_def unsqueeze0_def to_byte_def torch_gt_def uint8_of_def)
    with src(3) em [of y x] s'(2) show ?thesis
      by (auto simp: uint8_of_def)
  qed
  from l h w r m sm px [folded c] show ?thesis by blast
qed

theorem frame_mask_thresholds_first_object_witness:
  "\<exists>l r. index2 example_logits 0 0 = Inr l
     \<and> interpolate_nearest example_env
          (to_float (unsqueeze0 (unsqueeze0 (to_byte
             (torch_gt l (round_to example_env (comparison_dtype (dtype l)) (1 / 2)))))))
          (4, 4) = Inr r
     \<and> example_mask = to_byte (squeeze0 (squeeze0 r))
     \<and> dtype example_mask = UInt8 \<and> shape example_mask = [4, 4]
     \<and> elems example_mask [0, 0] = 1 \<and> elems example_mask [0, 3] = 0
     \<and> elems example_mask [0, 3] \<in> {0, 1}
     \<and> (\<exists>src. in_bounds (shape l) src
           \<and> elems example_mask [0, 3]
               = (if elems l src > round_to example_env (comparison_dtype (dtype l)) (1 / 2)
                  then 1 else 0))"
proof -
  have nn: "nearest_neighbour (interpolate_nearest example_env)"
    by (simp add: example_env_fields nearest_neighbour_example)
  have d: "dim_at (shape example_logits) 0 = Inr 1" "(0::nat) < 1"
    by (simp_all add: dim_at_def example_logits_def)
  from frame_mask_thresholds_first_object [OF nn d frame_mask_example, of "1 / 2"]
  obtain l h w r where
    x: "index2 example_logits 0 0 = Inr l"
      "dim_at (shape (to_float (example_frame (1 / 2)))) 0 = Inr h"
      "dim_at (shape (to_float (example_frame (1 / 2)))) 1 = Inr w"
      "interpolate_nearest example_env
          (to_float (unsqueeze0 (unsqueeze0 (to_byte
             (torch_gt l (round_to example_env (comparison_dtype (dtype l)) (1 / 2)))))))
          (h, w) = Inr r"
      "example_mask = to_byte (squeeze0 (squeeze0 r))"
      "dtype example_mask = UInt8" "shape example_mask = [h, w]"
      "\<And>y x. y < h \<Longrightarrow> x < w \<Longrightarrow> elems example_mask [y, x] \<in> {0, 1}
           \<and> (\<exists>src. in_bounds (shape l) src
                 \<and> elems example_mask [y, x]
                     = (if elems l src > round_to example_env (comparison_dtype (dtype l)) (1 / 2)
                        then 1 else 0))"
    by blast
  from x(2,3) have hw: "h = 4" "w = 4"
    by (simp_all add: dim_at_def to_float_def example_frame_def)
  from x(8) [of 0 3] x(1,4,5,6,7) example_mask_entries show ?thesis unfolding hw by simp
qed

section \<open>Properties of the processing of one frame\<close>

subsection \<open>Decomposing a run\<close>

lemma bindS_E:
  assumes "bindS m f s = (res, s')"
  obtains (raised) e where "m s = (Inl e, s')" "res = Inl e"
        | (returned) x s1 where "m s = (Inr x, s1)" "f x s1 = (res, s')"
  using assms by (auto simp: bindS_def split: prod.splits sum.splits)

lemma liftS_E:
  assumes "liftS r s = (res, s')"
  shows "s' = s \<and> res = r"
  using assms by (auto simp: liftS_def)

lemma bindS_liftS_E:
  assumes "bindS (liftS r) f s = (res, s')"
  obtains (raised) e where "r = Inl e" "res = Inl e" "s' = s"
        | (returned) x where "r = Inr x" "f x s = (res, s')"
  using assms by (auto simp: bindS_def liftS_def split: prod.splits sum.splits)

lemma bindS_modify [simp]: "bindS (modify g) f s = f () (g s)"
  by (simp add: bindS_def modify_def)


lemma call_model_E:
  assumes "call_model c r f s = (res, s')"
  shows "calls s' = calls s @ [c] \<and> predictor s' = predictor s \<and> if_init s' = if_init s
         \<and> processed_frames s' = processed_frames s \<and> mask_list s' = mask_list s"
  using assms by (auto simp: call_model_def split: prod.splits)

subsection \<open>Seeding and tracking\<close>

lemma seed_prompts_calls:
  "seed_prompts E r labels ips out s = (res, s') \<Longrightarrow>
     same_node s s' \<and> (\<exists>ps. calls s' = calls s @ ps \<and> list_all (is_prompt r) ps)"
proof (induction ips arbitrary: out s)
  case Nil
  then show ?case by (simp add: retS_def same_node_def)
next
  case (Cons ip ips)
  obtain idx point where ip: "ip = (idx, point)" by (cases ip)
  from Cons.prems show ?case
    unfolding ip seed_prompts.simps
  proof (cases rule: bindS_liftS_E)
    case (raised e)
    then show ?thesis by (simp add: same_node_def)
  next
    case (returned pt)
    from returned(2) show ?thesis
    proof (cases rule: bindS_liftS_E)
      case (raised e)
      then show ?thesis by (simp add: same_node_def)
    next
      case (returned label)
      from returned(2) show ?thesis
      proof (cases rule: bindS_E)
        case (raised e)
        from call_model_E [OF raised(1)] show ?thesis by (simp add: same_node_def)
      next
        case (returned x s1)
        obtain a b lg where x: "x = (a, b, lg)" by (cases x)
        from call_model_E [OF returned(1)] Cons.IH [of "Some lg" s1] returned(2)
        show ?thesis by (auto simp: same_node_def x)
      qed
    qed
  qed
qed


lemma init_or_track_tracking:
  assumes "init_or_track E cp pl frame s = (res, s')" "predictor s = Some r" "if_init s"
  shows "same_node s s' \<and> calls s' = calls s @ [Track r frame]"
proof -
  from assms have
    "bindS (call_model (Track r frame) r (track E frame))
       (\<lambda>(out_obj_ids, out_mask_logits). retS (Some out_mask_logits)) s = (res, s')"
    by (simp add: init_or_track_def)
  then show ?thesis
  proof (cases rule: bindS_E)
    case (raised e)
    from call_model_E [OF raised(1)] show ?thesis by (simp add: same_node_def)
  next
    case (returned x s1)
    from call_model_E [OF returned(1)] returned(2) show ?thesis
      by (auto simp: same_node_def retS_def split: prod.splits)
  qed
qed

lemma init_or_track_seeding:
  assumes "init_or_track E cp pl frame s = (res, s')" "predictor s = Some r" "\<not> if_init s"
  shows "predictor s' = Some r \<and> processed_frames s' = processed_frames s
         \<and> mask_list s' = mask_list s
         \<and> (\<exists>ps. calls s' = calls s @ LoadFirstFrame r frame # ps \<and> list_all (is_prompt r) ps)
         \<and> (\<forall>out. res = Inr out \<longrightarrow> if_init s')"
proof -
  let ?rest = "(\<lambda>_::unit.
       bindS (modify (\<lambda>s. s\<lparr>if_init := True\<rparr>)) (\<lambda>_.
       bindS (liftS (literal_eval E cp)) (\<lambda>coordinates_positive_list.
       bindS (liftS (literal_eval E pl)) (\<lambda>point_labels_list.
       bindS (liftS (int_list E point_labels_list)) (\<lambda>point_labels_list.
       bindS (liftS (py_iter E coordinates_positive_list)) (\<lambda>points.
       seed_prompts E r point_labels_list (enumerate 0 points) None))))))"
  from assms have
    "bindS (call_model (LoadFirstFrame r frame) r (load_first_frame E frame)) ?rest s = (res, s')"
    by (simp add: init_or_track_def)
  then show ?thesis
  proof (cases rule: bindS_E)
    case (raised e)
    from call_model_E [OF raised(1)] assms(2) raised(2) show ?thesis by simp
  next
    case (returned x s1)
    note s1 = call_model_E [OF returned(1)]
    let ?s2 = "s1\<lparr>if_init := True\<rparr>"
    from returned(2) have
      "bindS (liftS (literal_eval E cp)) (\<lambda>coordinates_positive_list.
       bindS (liftS (literal_eval E pl)) (\<lambda>point_labels_list.
       bindS (liftS (int_list E point_labels_list)) (\<lambda>point_labels_list.
       bindS (liftS (py_iter E coordinates_positive_list)) (\<lambda>points.
       seed_prompts E r point_labels_list (enumerate 0 points) None)))) ?s2 = (res, s')"
      by simp
    then show ?thesis
    proof (cases rule: bindS_liftS_E)
      case (raised e)
      with s1 assms(2) show ?thesis by simp
    next
      case (returned cv)
      from returned(2) show ?thesis
      proof (cases rule: bindS_liftS_E)
        case (raised e)
        with s1 assms(2) show ?thesis by simp
      next
        case (returned lv)
        from returned(2) show ?thesis
        proof (cases rule: bindS_liftS_E)
          case (raised e)
          with s1 assms(2) show ?thesis by simp
        next
          case (returned labs)
          from returned(2) show ?thesis
          proof (cases rule: bindS_liftS_E)
            case (raised e)
            with s1 assms(2) show ?thesis by simp
          next
            case (returned pts)
            from seed_prompts_calls [OF returned(2)] s1 assms(2) show ?thesis
              by (auto simp: same_node_def)
          qed
        qed
      qed
    qed
  qed
qed


lemma init_or_track_lists:
  assumes "init_or_track E cp pl frame s = (res, s')"
  shows "processed_frames s' = processed_frames s \<and> mask_list s' = mask_list s
     \<and> predictor s' = predictor s \<and> (if_init s \<longrightarrow> if_init s')"
proof (cases "predictor s")
  case None
  with assms show ?thesis by (simp add: init_or_track_def)
next
  case (Some r)
  show ?thesis
  proof (cases "if_init s")
    case True
    from init_or_track_tracking [OF assms Some True] True show ?thesis by (simp add: same_node_def)
  next
    case False
    from init_or_track_seeding [OF assms Some False] Some False show ?thesis by simp
  qed
qed

lemma process_frame_E:
  assumes "process_frame E cp pl th sp frame0 idx s = (res, s')"
  obtains res1 s1 where
    "init_or_track E cp pl (to_float frame0) s = (res1, s1)"
    "calls s' = calls s1" "predictor s' = predictor s1" "if_init s' = if_init s1"
    "heap s' = heap s1"
    "res = Inr () \<Longrightarrow> \<exists>logits p q. res1 = Inr logits
        \<and> blended_images E cp th sp (to_float frame0) logits = Inr (p, q)
        \<and> processed_frames s' = processed_frames s1 @ [p]
        \<and> mask_list s' = mask_list s1 @ [q]"
proof -
  obtain res1 s1 where i: "init_or_track E cp pl (to_float frame0) s = (res1, s1)"
    by (cases "init_or_track E cp pl (to_float frame0) s")
  show ?thesis
  proof (cases res1)
    case (Inl e)
    with assms i have "s' = s1" "res = Inl e"
      by (simp_all add: process_frame_def Let_def bindS_def)
    with i Inl show ?thesis by (intro that [of res1 s1]) simp_all
  next
    case (Inr logits)
    with assms i have
      "calls s' = calls s1 \<and> predictor s' = predictor s1 \<and> if_init s' = if_init s1
       \<and> heap s' = heap s1
       \<and> (res = Inr () \<longrightarrow> (\<exists>p q. blended_images E cp th sp (to_float frame0) logits = Inr (p, q)
        \<and> processed_frames s' = processed_frames s1 @ [p]
        \<and> mask_list s' = mask_list s1 @ [q]))"
      by (auto simp: process_frame_def Let_def bindS_def liftS_def modify_def bindE_def
          blended_images_def colorized_mask_def split: sum.splits if_splits)
    with i Inr show ?thesis by (intro that [of res1 s1]) simp_all
  qed
qed

lemma process_frame_returns:
  assumes "init_or_track E cp pl (to_float frame0) s = (Inr logits, s1)"
    "blended_images E cp th sp (to_float frame0) logits = Inr (p, q)"
  shows "process_frame E cp pl th sp frame0 idx s
           = (Inr (), s1\<lparr>processed_frames := processed_frames s1 @ [p],
                         mask_list := mask_list s1 @ [q]\<rparr>)"
  using assms
  by (auto simp: process_frame_def Let_def bindS_def liftS_def modify_def bindE_def
      blended_images_def colorized_mask_def split: sum.splits if_splits)

lemma process_frame_raises_in_process_mask:
  assumes "init_or_track E cp pl (to_float frame0) s = (Inr logits, s1)"
    "frame_mask E th (to_float frame0) logits = Inr msk"
    "process_mask E msk (shape (to_float frame0)) = Inl e"
  shows "process_frame E cp pl th sp frame0 idx s = (Inl e, s1)"
  using assms
  by (simp add: process_frame_def Let_def bindS_def liftS_def)


subsection \<open>The example environment\<close>

lemma init_or_track_example_seeds:
  assumes "predictor s = Some 0" "\<not> if_init s"
  shows "\<exists>s1. init_or_track example_env (Some ''[[1, 2], [3, 4]]'') (Some ''[1, 0]'') frame s
            = (Inr (Some example_logits), s1)
       \<and> predictor s1 = Some 0 \<and> if_init s1
       \<and> processed_frames s1 = processed_frames s \<and> mask_list s1 = mask_list s
       \<and> calls s1 = calls s @ [LoadFirstFrame 0 frame, AddNewPrompt 0 0 1 [[1, 2]] [1],
                                AddNewPrompt 0 0 2 [[3, 4]] [0]]"
  using assms
  by (simp add: init_or_track_def bindS_def call_model_def retS_def liftS_def modify_def
      example_env_fields example_literal_eval_def example_iter_def example_int_def int_list_def
      bindE_def list_get_def)

lemma init_or_track_example_tracks:
  assumes "predictor s = Some 0" "if_init s"
  shows "\<exists>s1. init_or_track example_env cp pl frame s = (Inr (Some example_logits), s1)
       \<and> predictor s1 = Some 0 \<and> if_init s1
       \<and> processed_frames s1 = processed_frames s \<and> mask_list s1 = mask_list s
       \<and> calls s1 = calls s @ [Track 0 frame]"
  using assms
  by (simp add: init_or_track_def bindS_def call_model_def retS_def example_env_fields)

text \<open>
  Two runs that raise. With an empty list of coordinates no prompt is seeded,
  \<open>out_mask_logits\<close> is never assigned and reading it raises. With no coordinates at all
  the parser raises, after \<open>if_init\<close> was set.
\<close>

lemma process_frame_example_no_prompt:
  assumes "predictor s = Some 0" "\<not> if_init s"
  shows "fst (process_frame example_env (Some ''[]'') (Some ''[]'') threshold show_point frame0
                frame_idx s) = Inl UnboundLocalError"
  using assms
  by (simp add: process_frame_def Let_def init_or_track_def bindS_def call_model_def retS_def
      liftS_def modify_def example_env_fields example_literal_eval_def example_iter_def
      int_list_def bindE_def frame_mask_def)

lemma process_frame_example_no_coordinates:
  "fst (process_frame example_env None None threshold show_point frame0 frame_idx example_fresh)
     = Inl ValueError
   \<and> if_init (snd (process_frame example_env None None threshold show_point frame0 frame_idx
                     example_fresh))"
  by (simp add: process_frame_def Let_def init_or_track_def bindS_def call_model_def retS_def
      liftS_def modify_def example_env_fields example_literal_eval_def example_fresh_def init_def)

text \<open>
  A frame of the examples: the model answers, the mask of the frame is computed, and
  \<open>_process_mask\<close> raises on it, whether the node was initialized or not.
\<close>

lemma example_resize_refuses_scalar: "shape t = [] \<Longrightarrow> example_resize t dsize = Inl Cv2Error"
  by (simp add: example_resize_def)

lemma process_mask_example_raises:
  "process_mask example_env example_mask (shape (to_float (example_frame v))) = Inl Cv2Error"
  by (rule process_mask_2d_raises [where h = 4 and w = 4 and fh = 4 and fw = 4])
     (simp_all add: example_mask_entries dim_at_def to_float_def example_frame_def
        example_env_fields example_resize_refuses_scalar)

lemma process_frame_example_raises:
  assumes "init_or_track example_env cp pl (to_float (example_frame v)) s
             = (Inr (Some example_logits), s1)"
  shows "process_frame example_env cp pl (1 / 2) sp (example_frame v) idx s = (Inl Cv2Error, s1)"
  by (rule process_frame_raises_in_process_mask [OF assms frame_mask_example
        process_mask_example_raises])



subsection \<open>Drawing the points\<close>

lemma draw_points_first_circle:
  "draw_points E (Some (point # rest)) img
     = bindE (cv2_circle E img [[point]] 5 (0, 0, 255) (- 1)) (draw_chars E rest)"
  by (simp add: draw_points_def)

text \<open>
  Claim C5 does not hold of the code. With \<open>show_point\<close> set, the loop that draws the
  points runs over the characters of the string \<open>coordinates_positive\<close>, not over the
  parsed coordinates: for the string \<open>[[10, 20]]\<close> the first centre handed to \<open>cv2.circle\<close>
  is the tuple of the one character \<open>[\<close>, whatever the routine does with it, and the point
  (10, 20) is never a centre. \<open>cv2.circle\<close> refuses a centre of strings, so the drawing
  raises at its first circle.
\<close>

theorem draw_points_iterates_characters:
  "draw_points E (Some ''[[10, 20]]'') img
     = bindE (cv2_circle E img [''[''] 5 (0, 0, 255) (- 1)) (draw_chars E ''[10, 20]]'')
   \<and> draw_points example_env (Some ''[[10, 20]]'') img = Inl Cv2Error"
  by (simp add: draw_points_def bindE_def example_env_fields example_circle_def)

section \<open>Properties of \<open>segment_images\<close>\<close>

subsection \<open>The loop over the frames\<close>

lemma frames_loop_tracking:
  "frames_loop E cp pl th sp ifs s = (res, s') \<Longrightarrow> predictor s = Some r \<Longrightarrow> if_init s \<Longrightarrow>
     predictor s' = Some r \<and> if_init s' \<and>
     (\<exists>k\<le>length ifs. calls s' = calls s @ tracks r (take k (map snd ifs))
         \<and> (res = Inr () \<longrightarrow> k = length ifs))"
proof (induction ifs arbitrary: s)
  case Nil
  then show ?case by (simp add: retS_def tracks_def)
next
  case (Cons a ifs)
  obtain idx img where a: "a = (idx, img)" by (cases a)
  from Cons.prems(1) have prem: "frames_loop E cp pl th sp ((idx, img) # ifs) s = (res, s')"
    by (simp add: a)
  have "predictor s' = Some r \<and> if_init s' \<and>
     (\<exists>k\<le>length ((idx, img) # ifs).
         calls s' = calls s @ tracks r (take k (map snd ((idx, img) # ifs)))
         \<and> (res = Inr () \<longrightarrow> k = length ((idx, img) # ifs)))"
    using prem unfolding frames_loop.simps
  proof (cases rule: bindS_E)
    case (raised e)
    from raised(1) show ?thesis
    proof (cases rule: process_frame_E)
      case (1 res1 s1)
      from init_or_track_tracking [OF 1(1) Cons.prems(2,3)] 1 Cons.prems(2,3) raised(2)
      have "predictor s' = Some r \<and> if_init s'
            \<and> calls s' = calls s @ tracks r (take 1 (map snd ((idx, img) # ifs)))
            \<and> res \<noteq> Inr ()"
        by (simp add: same_node_def tracks_def)
      then show ?thesis
        by (intro conjI exI [of _ 1]) simp_all
    qed
  next
    case (returned x s2)
    from returned(1) show ?thesis
    proof (cases rule: process_frame_E)
      case (1 res1 s1)
      from init_or_track_tracking [OF 1(1) Cons.prems(2,3)] 1 Cons.prems(2,3)
      have s2: "predictor s2 = Some r" "if_init s2" "calls s2 = calls s @ [Track r (to_float img)]"
        by (simp_all add: same_node_def)
      from Cons.IH [OF returned(2) s2(1,2)] obtain k where
        k: "predictor s' = Some r" "if_init s'" "k \<le> length ifs"
           "calls s' = calls s2 @ tracks r (take k (map snd ifs))"
           "res = Inr () \<longrightarrow> k = length ifs"
        by blast
      then show ?thesis using s2(3)
        by (intro conjI exI [of _ "Suc k"]) (simp_all add: tracks_def)
    qed
  qed
  then show ?case by (simp add: a)
qed

lemma frames_loop_seeding:
  assumes "frames_loop E cp pl th sp ((idx, img) # ifs) s = (res, s')"
    "predictor s = Some r" "\<not> if_init s"
  shows "predictor s' = Some r \<and>
     (\<exists>ps k. list_all (is_prompt r) ps \<and> k \<le> length ifs
        \<and> calls s' = calls s @ LoadFirstFrame r (to_float img) # ps @ tracks r (take k (map snd ifs))
        \<and> (res = Inr () \<longrightarrow> k = length ifs \<and> if_init s'))"
  using assms(1) unfolding frames_loop.simps
proof (cases rule: bindS_E)
  case (raised e)
  from raised(1) show ?thesis
  proof (cases rule: process_frame_E)
    case (1 res1 s1)
    from init_or_track_seeding [OF 1(1) assms(2,3)] obtain ps where
      "predictor s1 = Some r" "calls s1 = calls s @ LoadFirstFrame r (to_float img) # ps"
      "list_all (is_prompt r) ps"
      by blast
    with 1 raised(2) show ?thesis
      by (intro conjI exI [of _ ps] exI [of _ 0]) (simp_all add: tracks_def)
  qed
next
  case (returned x s2)
  from returned(1) show ?thesis
  proof (cases rule: process_frame_E)
    case (1 res1 s1)
    from 1(6) have "\<exists>logits. res1 = Inr logits" by auto
    with init_or_track_seeding [OF 1(1) assms(2,3)] obtain ps where
      ps: "predictor s1 = Some r" "calls s1 = calls s @ LoadFirstFrame r (to_float img) # ps"
      "list_all (is_prompt r) ps" "if_init s1"
      by blast
    with 1 have s2: "predictor s2 = Some r" "if_init s2" by simp_all
    from frames_loop_tracking [OF returned(2) s2] obtain k where
      k: "predictor s' = Some r" "if_init s'" "k \<le> length ifs"
         "calls s' = calls s2 @ tracks r (take k (map snd ifs))"
         "res = Inr () \<longrightarrow> k = length ifs"
      by blast
    with ps 1 show ?thesis
      by (intro conjI exI [of _ ps] exI [of _ k]) simp_all
  qed
qed

lemma frames_loop_outputs:
  "frames_loop E cp pl th sp ifs s = (Inr (), s') \<Longrightarrow>
     \<exists>ps qs. processed_frames s' = processed_frames s @ ps \<and> mask_list s' = mask_list s @ qs
       \<and> length ps = length ifs \<and> length qs = length ifs
       \<and> (\<forall>i<length ifs. \<exists>logits si si'.
             init_or_track E cp pl (to_float (snd (ifs ! i))) si = (Inr logits, si')
             \<and> blended_images E cp th sp (to_float (snd (ifs ! i))) logits = Inr (ps ! i, qs ! i))"
proof (induction ifs arbitrary: s)
  case Nil
  then show ?case by (simp add: retS_def)
next
  case (Cons a ifs)
  obtain idx img where a: "a = (idx, img)" by (cases a)
  from Cons.prems have "frames_loop E cp pl th sp ((idx, img) # ifs) s = (Inr (), s')"
    by (simp add: a)
  then have "\<exists>ps qs. processed_frames s' = processed_frames s @ ps \<and> mask_list s' = mask_list s @ qs
       \<and> length ps = Suc (length ifs) \<and> length qs = Suc (length ifs)
       \<and> (\<forall>i<Suc (length ifs). \<exists>logits si si'.
             init_or_track E cp pl (to_float (snd (((idx, img) # ifs) ! i))) si = (Inr logits, si')
             \<and> blended_images E cp th sp (to_float (snd (((idx, img) # ifs) ! i))) logits
                 = Inr (ps ! i, qs ! i))"
    unfolding frames_loop.simps
  proof (cases rule: bindS_E)
    case (raised e)
    then show ?thesis by simp
  next
    case (returned x s2)
    from returned(1) show ?thesis
    proof (cases rule: process_frame_E)
      case (1 res1 s1)
      from 1(6) obtain logits p q where
        pq: "res1 = Inr logits" "blended_images E cp th sp (to_float img) logits = Inr (p, q)"
          "processed_frames s2 = processed_frames s1 @ [p]" "mask_list s2 = mask_list s1 @ [q]"
        by auto
      from init_or_track_lists [OF 1(1)] pq(3,4) have
        s2: "processed_frames s2 = processed_frames s @ [p]" "mask_list s2 = mask_list s @ [q]"
        by simp_all
      from Cons.IH [OF returned(2)] obtain ps qs where
        r: "processed_frames s' = processed_frames s2 @ ps" "mask_list s' = mask_list s2 @ qs"
          "length ps = length ifs" "length qs = length ifs"
          "\<And>i. i < length ifs \<Longrightarrow> \<exists>logits si si'.
             init_or_track E cp pl (to_float (snd (ifs ! i))) si = (Inr logits, si')
             \<and> blended_images E cp th sp (to_float (snd (ifs ! i))) logits = Inr (ps ! i, qs ! i)"
        by blast
      have "\<exists>logits si si'.
             init_or_track E cp pl (to_float (snd (((idx, img) # ifs) ! i))) si = (Inr logits, si')
             \<and> blended_images E cp th sp (to_float (snd (((idx, img) # ifs) ! i))) logits
                 = Inr ((p # ps) ! i, (q # qs) ! i)" if "i < Suc (length ifs)" for i
      proof (cases i)
        case 0
        with 1(1) pq(1,2) show ?thesis by auto
      next
        case (Suc j)
        with that r(5) [of j] show ?thesis by simp
      qed
      with s2 r(1-4) show ?thesis
        by (intro exI [of _ "p # ps"] exI [of _ "q # qs"]) simp
    qed
  qed
  then show ?case by (simp add: a)
qed

lemma segment_images_E:
  assumes "segment_images E images model cp pl th sp s = (res, s')"
  obtains (raised) e where "res = Inl e" "calls s' = calls s @ [ToDevice model]"
      "predictor s' = predictor s" "if_init s' = if_init s"
  | (looped) s0 resl sl where
      "calls s0 = calls s @ [ToDevice model]"
      "predictor s0 = Some (stored_predictor s model)" "if_init s0 = if_init s"
      "processed_frames s0 = []" "mask_list s0 = []"
      "frames_loop E cp pl th sp (enumerate 0 images) s0 = (resl, sl)"
      "calls s' = calls sl" "predictor s' = predictor sl" "if_init s' = if_init sl"
      "\<And>out. res = Inr out \<Longrightarrow> resl = Inr () \<and> torch_stack (processed_frames sl) = Inr (fst out)
          \<and> torch_stack (mask_list sl) = Inr (snd out)"
  using assms unfolding segment_images_def
proof (cases rule: bindS_E)
  case (raised e)
  from call_model_E [OF raised(1)] raised(2) show ?thesis
    by (intro that(1) [of e]) simp_all
next
  case (returned x s1)
  note s1 = call_model_E [OF returned(1)]
  define s0 where
    "s0 = (if predictor s1 = None
           then s1\<lparr>processed_frames := [], mask_list := [], predictor := Some model\<rparr>
           else s1\<lparr>processed_frames := [], mask_list := []\<rparr>)"
  obtain resl sl where l: "frames_loop E cp pl th sp (enumerate 0 images) s0 = (resl, sl)"
    by (cases "frames_loop E cp pl th sp (enumerate 0 images) s0")
  from returned(2) l have
    "calls s' = calls sl \<and> predictor s' = predictor sl \<and> if_init s' = if_init sl
     \<and> (\<forall>out. res = Inr out \<longrightarrow> resl = Inr () \<and> torch_stack (processed_frames sl) = Inr (fst out)
          \<and> torch_stack (mask_list sl) = Inr (snd out))"
    by (auto simp: s0_def bindS_def retS_def modify_def split: sum.splits if_splits)
  moreover from s1 have "calls s0 = calls s @ [ToDevice model]"
      "predictor s0 = Some (stored_predictor s model)" "if_init s0 = if_init s"
      "processed_frames s0 = []" "mask_list s0 = []"
    by (auto simp: s0_def stored_predictor_def split: option.splits)
  ultimately show ?thesis using l
    by (intro that(2) [of s0 resl sl]) simp_all
qed

text \<open>
  The two example runs: a first call on a fresh node, which seeds two prompts, and a later
  call on an initialized node, which tracks. Both raise on their first frame, in
  \<open>_process_mask\<close>, after the calls on the model were made.
\<close>

lemma example_run_raises:
  "\<exists>s'. example_run = (Inl Cv2Error, s') \<and> if_init s' \<and> predictor s' = Some 0
     \<and> calls s' = [ToDevice 0, LoadFirstFrame 0 (to_float (example_frame (1 / 2))),
                    AddNewPrompt 0 0 1 [[1, 2]] [1], AddNewPrompt 0 0 2 [[3, 4]] [0]]"
proof -
  let ?cp = "Some ''[[1, 2], [3, 4]]''" and ?pl = "Some ''[1, 0]''"
  define s0 :: "nat state" where
    "s0 = \<lparr>predictor = Some 0, if_init = False, heap = (\<lambda>_. 0), calls = [ToDevice 0],
           processed_frames = [], mask_list = []\<rparr>"
  have s0: "predictor s0 = Some 0" "\<not> if_init s0" by (simp_all add: s0_def)
  from init_or_track_example_seeds [OF s0, of "to_float (example_frame (1 / 2))"]
  obtain s1 where
    s1: "init_or_track example_env ?cp ?pl (to_float (example_frame (1 / 2))) s0
           = (Inr (Some example_logits), s1)"
      "predictor s1 = Some 0" "if_init s1"
      "calls s1 = [ToDevice 0, LoadFirstFrame 0 (to_float (example_frame (1 / 2))),
                   AddNewPrompt 0 0 1 [[1, 2]] [1], AddNewPrompt 0 0 2 [[3, 4]] [0]]"
    by (auto simp: s0_def)
  note f1 = process_frame_example_raises [OF s1(1), of False 0]
  have loop: "frames_loop example_env ?cp ?pl (1 / 2) False (enumerate 0 example_images) s0
                = (Inl Cv2Error, s1)"
    by (simp add: example_images_def bindS_def f1)
  have h: "(\<lambda>_. 0::nat)(0 := 0) = (\<lambda>_. 0)" by auto
  have "example_run = (Inl Cv2Error, s1)"
    using loop
    by (simp add: example_run_def segment_images_def bindS_def modify_def retS_def s0_def
        call_model_def example_env_fields init_def h)
  with s1(2-4) show ?thesis by blast
qed

lemma example_rerun_raises:
  "\<exists>s'. example_rerun = (Inl Cv2Error, s') \<and> if_init s' \<and> predictor s' = Some 0
     \<and> calls s' = [ToDevice 1, Track 0 (to_float (example_frame (1 / 2)))]"
proof -
  define s0 :: "nat state" where
    "s0 = \<lparr>predictor = Some 0, if_init = True, heap = (\<lambda>_. 0), calls = [ToDevice 1],
           processed_frames = [], mask_list = []\<rparr>"
  have s0: "predictor s0 = Some 0" "if_init s0" by (simp_all add: s0_def)
  from init_or_track_example_tracks [OF s0, of None None "to_float (example_frame (1 / 2))"]
  obtain s1 where
    s1: "init_or_track example_env None None (to_float (example_frame (1 / 2))) s0
           = (Inr (Some example_logits), s1)"
      "predictor s1 = Some 0" "if_init s1"
      "calls s1 = [ToDevice 1, Track 0 (to_float (example_frame (1 / 2)))]"
    by (auto simp: s0_def)
  note f1 = process_frame_example_raises [OF s1(1), of False 0]
  have loop: "frames_loop example_env None None (1 / 2) False (enumerate 0 example_images) s0
                = (Inl Cv2Error, s1)"
    by (simp add: example_images_def bindS_def f1)
  have h: "(\<lambda>_. 0::nat)(Suc 0 := 0) = (\<lambda>_. 0)" by auto
  have "example_rerun = (Inl Cv2Error, s1)"
    using loop
    by (simp add: example_rerun_def segment_images_def bindS_def modify_def retS_def s0_def
        call_model_def example_env_fields init_def example_tracking_def h)
  with s1(2-4) show ?thesis by blast
qed

text \<open>
  Claim C1. The calls that \<open>segment_images\<close> makes on the model follow the state machine
  of the node. After moving the model to the device, a node that is initialized makes
  exactly one \<open>track\<close> call per frame it processes; a node that is not makes
  \<open>load_first_frame\<close> on the first frame, then only \<open>add_new_prompt\<close> calls, then exactly
  one \<open>track\<close> call for each later frame it processes. \<open>load_first_frame\<close> is therefore
  called at most once, and never once \<open>if_init\<close> is set; \<open>if_init\<close> is never cleared. When
  the call returns, every frame was processed and \<open>if_init\<close> is set.
\<close>

theorem segment_images_state_machine:
  assumes "segment_images E images model cp pl th sp s = (res, s')"
  shows "(if_init s \<longrightarrow> if_init s') \<and>
     (\<exists>k ps. k \<le> length images \<and> list_all (is_prompt (stored_predictor s model)) ps \<and>
        calls s' = calls s @ ToDevice model #
           (if if_init s then tracks (stored_predictor s model) (take k images)
            else if k = 0 then []
            else LoadFirstFrame (stored_predictor s model) (to_float (hd images)) # ps
                 @ tracks (stored_predictor s model) (take (k - 1) (tl images))) \<and>
        ((\<exists>out. res = Inr out) \<longrightarrow> k = length images \<and> if_init s'))"
  using assms
proof (cases rule: segment_images_E)
  case (raised e)
  then show ?thesis
    by (intro conjI exI [of _ 0] exI [of _ "[]"]) (simp_all add: tracks_def)
next
  case (looped s0 resl sl)
  let ?r = "stored_predictor s model"
  show ?thesis
  proof (cases "if_init s")
    case True
    with looped have "if_init s0" by simp
    from frames_loop_tracking [OF looped(6,2) this] obtain k where
      k: "if_init sl" "k \<le> length images" "calls sl = calls s0 @ tracks ?r (take k images)"
        "resl = Inr () \<longrightarrow> k = length images"
      by (auto simp: map_snd_enumerate)
    with looped True show ?thesis
      by (intro conjI exI [of _ k] exI [of _ "[]"]) auto
  next
    case False
    with looped have ni: "\<not> if_init s0" by simp
    show ?thesis
    proof (cases images)
      case Nil
      with looped have "calls s' = calls s @ [ToDevice model]" "\<And>out. res \<noteq> Inr out"
        by (auto simp: retS_def dest!: torch_stack_nonempty)
      with False show ?thesis
        by (intro conjI exI [of _ 0] exI [of _ "[]"]) simp_all
    next
      case (Cons img rest)
      with looped(6) have
        "frames_loop E cp pl th sp ((0, img) # enumerate 1 rest) s0 = (resl, sl)"
        by simp
      from frames_loop_seeding [OF this looped(2) ni] obtain ps k where
        k: "list_all (is_prompt ?r) ps" "k \<le> length rest"
          "calls sl = calls s0 @ LoadFirstFrame ?r (to_float img) # ps @ tracks ?r (take k rest)"
          "resl = Inr () \<longrightarrow> k = length rest \<and> if_init sl"
        by (auto simp: map_snd_enumerate)
      with looped False Cons show ?thesis
        by (intro conjI exI [of _ "Suc k"] exI [of _ ps]) auto
    qed
  qed
qed

theorem segment_images_state_machine_witness:
  "(\<exists>k ps. k \<le> length example_images \<and> list_all (is_prompt 0) ps
      \<and> calls (snd example_run) =
            ToDevice 0 # (if k = 0 then []
                          else LoadFirstFrame 0 (to_float (hd example_images)) # ps
                               @ tracks 0 (take (k - 1) (tl example_images))))
   \<and> calls (snd example_run) =
         [ToDevice 0, LoadFirstFrame 0 (to_float (example_frame (1 / 2))),
          AddNewPrompt 0 0 1 [[1, 2]] [1], AddNewPrompt 0 0 2 [[3, 4]] [0]]
   \<and> if_init (snd example_run)
   \<and> (\<exists>k. k \<le> length example_images
         \<and> calls (snd example_rerun) = ToDevice 1 # tracks 0 (take k example_images))
   \<and> calls (snd example_rerun) = [ToDevice 1, Track 0 (to_float (example_frame (1 / 2)))]
   \<and> if_init (snd example_rerun)"
proof -
  from example_run_raises obtain s1 where
    r1: "example_run = (Inl Cv2Error, s1)" "if_init s1"
      "calls s1 = [ToDevice 0, LoadFirstFrame 0 (to_float (example_frame (1 / 2))),
                   AddNewPrompt 0 0 1 [[1, 2]] [1], AddNewPrompt 0 0 2 [[3, 4]] [0]]"
    by blast
  from example_rerun_raises obtain s2 where
    r2: "example_rerun = (Inl Cv2Error, s2)" "if_init s2"
      "calls s2 = [ToDevice 1, Track 0 (to_float (example_frame (1 / 2)))]"
    by blast
  have f: "snd example_run = s1" "snd example_rerun = s2" by (simp_all add: r1 r2)
  have i: "if_init (init (\<lambda>_. 0::nat)) = False" "stored_predictor (init (\<lambda>_. 0::nat)) 0 = 0"
    "if_init example_tracking = True" "stored_predictor example_tracking 1 = 0"
    "calls (init (\<lambda>_. 0::nat)) = []" "calls example_tracking = []"
    by (simp_all add: init_def stored_predictor_def example_tracking_def)
  note a = segment_images_state_machine [OF r1(1) [unfolded example_run_def], unfolded i,
      THEN conjunct2, unfolded if_False append_Nil]
  note b = segment_images_state_machine [OF r2(1) [unfolded example_rerun_def], unfolded i,
      THEN conjunct2, unfolded if_True append_Nil]
  from a have a': "\<exists>k ps. k \<le> length example_images \<and> list_all (is_prompt 0) ps
      \<and> calls s1 =
            ToDevice 0 # (if k = 0 then []
                          else LoadFirstFrame 0 (to_float (hd example_images)) # ps
                               @ tracks 0 (take (k - 1) (tl example_images)))"
    by auto
  from b have b': "\<exists>k. k \<le> length example_images
         \<and> calls s2 = ToDevice 1 # tracks 0 (take k example_images)"
    by auto
  from a' b' r1(2,3) r2(2,3) show ?thesis unfolding f by simp
qed

subsection \<open>The stacked outputs\<close>

text \<open>
  The blended frame is \<open>torch.add(frame * 0.7, automask_colored * 0.3)\<close>, where
  \<open>automask_colored\<close> is the numpy array that \<open>_process_mask\<close> or \<open>cv2.circle\<close> returned, and
  so is its product with 0.3. \<open>torch.add\<close> refuses an operand that is a numpy array: with
  such a \<open>torch.add\<close> no frame is ever blended, and \<open>segment_images\<close> returns for no input,
  whatever the model, the parser, the interpolation and the OpenCV routines do.
\<close>

lemma lib_np_mul_scalar: "lib (np_mul_scalar a c) = Numpy"
  by (simp add: np_mul_scalar_def)

lemma blended_images_raises:
  assumes "\<And>a b. lib b = Numpy \<Longrightarrow> torch_add E a b = Inl TypeError"
  shows "blended_images E cp th sp frame logits \<noteq> Inr pq"
  by (auto simp: blended_images_def bindE_def assms lib_np_mul_scalar split: sum.splits)

lemma segment_images_never_returns:
  assumes "\<And>a b. lib b = Numpy \<Longrightarrow> torch_add E a b = Inl TypeError"
  shows "segment_images E images model cp pl th sp s \<noteq> (Inr out, s')"
proof
  assume "segment_images E images model cp pl th sp s = (Inr out, s')"
  then show False
  proof (cases rule: segment_images_E)
    case (raised e)
    then show ?thesis by simp
  next
    case (looped s0 resl sl)
    from looped(10) [OF refl] have r: "resl = Inr ()"
      and st: "torch_stack (processed_frames sl) = Inr (fst out)" by simp_all
    from frames_loop_outputs [OF looped(6) [unfolded r]] obtain ps qs where
      p: "processed_frames sl = processed_frames s0 @ ps" "length ps = length (enumerate 0 images)"
      and b: "\<forall>i<length (enumerate 0 images). \<exists>logits si si'.
             init_or_track E cp pl (to_float (snd (enumerate 0 images ! i))) si = (Inr logits, si')
             \<and> blended_images E cp th sp (to_float (snd (enumerate 0 images ! i))) logits
                 = Inr (ps ! i, qs ! i)"
      by blast
    show ?thesis
    proof (cases images)
      case Nil
      with p looped(4) st show ?thesis by (simp add: torch_stack_def)
    next
      case (Cons f fs)
      then have "0 < length (enumerate 0 images)" by simp
      with b obtain logits where
        "blended_images E cp th sp (to_float (snd (enumerate 0 images ! 0))) logits
                 = Inr (ps ! 0, qs ! 0)"
        by blast
      with blended_images_raises [OF assms] show ?thesis by blast
    qed
  qed
qed

lemma example_add_refuses_numpy: "lib b = Numpy \<Longrightarrow> torch_add example_env a b = Inl TypeError"
  by (simp add: example_env_fields example_add_def)

lemma segment_images_example_never_returns:
  "segment_images example_env images model cp pl th sp s \<noteq> (Inr out, s')"
  by (rule segment_images_never_returns [OF example_add_refuses_numpy])

text \<open>
  Claim C6 does not hold of the code. On a fresh node, two frames of four rows and four
  columns, the coordinates \<open>[[1, 2], [3, 4]]\<close>, the labels \<open>[1, 0]\<close> and the threshold 1/2,
  \<open>segment_images\<close> returns no pair of tensors: it raises on the first frame. The mask of
  the frame has two dimensions, \<open>_process_mask\<close> takes \<open>mask[0, 0]\<close>, a single entry, for
  the mask of the first object, and \<open>cv2.resize\<close> refuses it.
\<close>

theorem segment_images_example_raises:
  "example_images \<noteq> [] \<and> fst example_run = Inl Cv2Error"
proof -
  from example_run_raises obtain s' where r: "example_run = (Inl Cv2Error, s')" by blast
  show ?thesis by (simp add: r example_images_def)
qed

subsection \<open>Calls on an initialized node\<close>













end
